theory Spec2Isabelle
  imports
    Main
    "HOL-Library.AList"
    "HOL-Library.Sublist"
    "HOL-Library.Char_ord"
    "HOL-Library.List_Lexorder"
begin

section \<open>The repository builder of tuft (\<^verbatim>\<open>src/tuft/RepoBuilder.py\<close>)\<close>

text \<open>
  A shallow embedding of the role records, the file naming scheme, the persister, the
  reconciliation strategy and the publish cascade.

  Conventions.
  \<^item> Python integers are \<open>int\<close>; Python strings are \<open>string\<close> (lists of 8-bit characters).
  \<^item> A Python \<open>dict\<close> is an association list with distinct keys in insertion order;
    \<open>d[k] = v\<close> is \<open>AList.update k v d\<close> (an existing key keeps its place, a new key goes
    last) and \<open>d[k]\<close> is \<open>map_of d k\<close>, with \<open>KeyError\<close> written out for a missing key.
  \<^item> Every \<open>raise\<close> and every failing \<open>assert\<close> of the source is a value of type \<open>error\<close>.
    A function that can raise returns \<open>error + 'a\<close>. The methods that mutate a role record
    or write to the directory return the state they leave behind together with the outcome,
    so that "nothing was written" and "the version is unchanged" are statements about values.
  \<^item> The libraries the source calls (python-tuf's metadata classes, the signer, the JSON
    codec, \<open>re\<close>, \<open>pathlib\<close>) are modelled by what the source relies on; each such
    definition says so.
\<close>

subsection \<open>Exceptions\<close>

datatype error =
    FileNotFoundError string
  | AssertionError
  | KeyError string
  | AttributeError string
  | IndexError
  | TypeError
  | DeserializationError
  | PatternNotModelled string
  | ValueError_VersionDecrease int int
  | ValueError_NoSuchRole string
  | ValueError_VersionFromFileName string int int
  | RuntimeError_Unsigned string
  | RuntimeError_VersionWithinFile string int int
  | RuntimeError_NotUnique string "(int option \<times> string) list"
  | RuntimeError_NotAllRolesLoaded "string list"

subsection \<open>Python's \<open>str\<close> and \<open>int\<close> on decimal numerals\<close>

definition backslash :: char where
  "backslash = CHR 0x5C"

definition isdigit :: "char \<Rightarrow> bool" where
  "isdigit c \<longleftrightarrow> (48::nat) \<le> of_char c \<and> of_char c \<le> (57::nat)"

definition digit_char :: "nat \<Rightarrow> char" where
  "digit_char d = char_of (48 + d)"

definition digit_val :: "char \<Rightarrow> nat" where
  "digit_val c = of_char c - 48"

fun str_nat :: "nat \<Rightarrow> string" where
  "str_nat n = (if n < 10 then [digit_char n] else str_nat (n div 10) @ [digit_char (n mod 10)])"

declare str_nat.simps [simp del]

text \<open>
  The naming functions take \<open>typing.Union[int, str]\<close> and apply \<open>str\<close> to it: the decimal
  numeral of an integer (with a leading minus sign when negative), the string itself otherwise.
\<close>

datatype int_or_str = I int | S string

fun str :: "int_or_str \<Rightarrow> string" where
  "str (I i) = (if i < 0 then CHR ''-'' # str_nat (nat (- i)) else str_nat (nat i))"
| "str (S s) = s"

text \<open>\<open>int(s)\<close> on a string of decimal digits (the only strings the source passes to it).\<close>

definition int_of_digits :: "string \<Rightarrow> int" where
  "int_of_digits s = foldl (\<lambda>a c. 10 * a + int (digit_val c)) 0 s"

subsection \<open>The fragment of \<open>re\<close> that discovery uses\<close>

text \<open>
  Discovery compiles the text \<open>(\d+)\<close> followed by the role name and the extension, in which
  \<open>str.replace\<close> has escaped every dot. The model compiles exactly the patterns of that shape
  whose remaining characters stand for themselves: \<open>(\d+)\<close> followed by literal characters and
  escaped dots. A pattern with any other character that is special in a regular expression is
  outside the model and compiles to \<open>PatternNotModelled\<close>; nothing is claimed about it.
  \<open>match\<close> anchors at the start of the file name and accepts any continuation after the
  pattern; the group is greedy and gives digits back only if the rest would not match.
\<close>

definition group_digits :: string where
  "group_digits = ''('' @ [backslash] @ ''d+)''"

definition regex_special :: "char \<Rightarrow> bool" where
  "regex_special c \<longleftrightarrow> c \<in> set ''.^$*+?{}[]|()'' \<or> c = backslash"

definition replace_dot :: "string \<Rightarrow> string" where
  "replace_dot s = concat (map (\<lambda>c. if c = CHR ''.'' then [backslash, CHR ''.''] else [c]) s)"

fun re_literals :: "string \<Rightarrow> string option" where
  "re_literals [] = Some []"
| "re_literals [c] = (if regex_special c then None else Some [c])"
| "re_literals (c # d # cs) =
     (if c = backslash then
        (if d = CHR ''.'' then map_option (Cons d) (re_literals cs) else None)
      else if regex_special c then None
      else map_option (Cons c) (re_literals (d # cs)))"

datatype Pattern = Pattern (pattern: string) (literals: string)

definition re_compile :: "string \<Rightarrow> error + Pattern" where
  "re_compile p =
     (if take (length group_digits) p = group_digits then
        (case re_literals (drop (length group_digits) p) of
           None \<Rightarrow> Inl (PatternNotModelled p)
         | Some ls \<Rightarrow> Inr (Pattern p ls))
      else Inl (PatternNotModelled p))"

definition re_match :: "Pattern \<Rightarrow> string \<Rightarrow> string option" where
  "re_match re fn =
     (let n = length (takeWhile isdigit fn) in
      map_option (\<lambda>k. take k fn)
        (find (\<lambda>k. prefix (literals re) (drop k fn)) (rev [1..<Suc n])))"

subsection \<open>Role kinds (\<open>RoleFactory\<close>) and the role model\<close>

datatype RoleKind = Root | Targets | Snapshot | Timestamp

datatype RoleFactory =
  RoleFactory (name: string) (ctor: RoleKind) (defaultExpire: int)
    (deps: "RoleFactory list") (hasVersion: bool)

definition rootRoleFac :: RoleFactory where
  "rootRoleFac = RoleFactory ''root'' Root (365 * 24 * 3600) [] False"

definition targetsRoleFac :: RoleFactory where
  "targetsRoleFac = RoleFactory ''targets'' Targets (7 * 24 * 3600) [rootRoleFac] True"

definition snapshotRoleFac :: RoleFactory where
  "snapshotRoleFac = RoleFactory ''snapshot'' Snapshot (7 * 24 * 3600) [targetsRoleFac] True"

definition timestampRoleFac :: RoleFactory where
  "timestampRoleFac = RoleFactory ''timestamp'' Timestamp (7 * 24 * 3600) [snapshotRoleFac] False"

text \<open>\<open>RolesModel\<close> is a dict from role name to factory, built from an iterable of factories.\<close>

type_synonym RolesModel = "(string \<times> RoleFactory) list"

definition RolesModel :: "RoleFactory list \<Rightarrow> RolesModel" where
  "RolesModel roleCtors = foldl (\<lambda>d el. AList.update (name el) el d) [] roleCtors"

definition ROLES_MODEL :: RolesModel where
  "ROLES_MODEL = RolesModel [targetsRoleFac, snapshotRoleFac, timestampRoleFac]"

fun collectParentRoles :: "RoleFactory \<Rightarrow> RoleFactory list" where
  "collectParentRoles (RoleFactory n c e curRole_deps h) =
     concat (map (\<lambda>depRole. depRole # collectParentRoles depRole) curRole_deps)"

subsection \<open>The file naming scheme (\<open>OurRoleLayout\<close>)\<close>

definition getConsistentFileName :: "string \<Rightarrow> string \<Rightarrow> int_or_str \<Rightarrow> string" where
  "getConsistentFileName ext roleName version = str version @ ''.'' @ roleName @ ''.'' @ ext"

definition getSimpleFileName :: "string \<Rightarrow> string \<Rightarrow> string" where
  "getSimpleFileName ext roleName = roleName @ ''.'' @ ext"

definition getFileName :: "string \<Rightarrow> RoleFactory \<Rightarrow> int_or_str \<Rightarrow> bool \<Rightarrow> string" where
  "getFileName ext roleFactory roleVersion isConsistent =
     (if isConsistent then getConsistentFileName ext (name roleFactory) (S (str roleVersion))
      else getSimpleFileName ext (name roleFactory))"

type_synonym FileNameDiscoveredMetadataVersionT = "int option \<times> string"

definition discoverSipleVersionsFromFileNames ::
  "string \<Rightarrow> RoleFactory \<Rightarrow> string list \<Rightarrow> FileNameDiscoveredMetadataVersionT list" where
  "discoverSipleVersionsFromFileNames ext roleFactory fileNames =
     (let simpleFileName = getSimpleFileName ext (name roleFactory) in
      if simpleFileName \<in> set fileNames then [(None, simpleFileName)] else [])"

definition discoverConsistentVersionsFromFileNames ::
  "string \<Rightarrow> RoleFactory \<Rightarrow> string list \<Rightarrow> error + (int \<times> string) list" where
  "discoverConsistentVersionsFromFileNames ext roleFactory fileNames =
     (if CHR ''*'' \<in> set (name roleFactory) then Inl AssertionError
      else
        case re_compile (replace_dot (getConsistentFileName ext (name roleFactory) (S group_digits))) of
          Inl e \<Rightarrow> Inl e
        | Inr roleGlobFnRegExp \<Rightarrow>
            (let versions =
                   sort_key fst
                     (List.map_filter
                        (\<lambda>fn. map_option (\<lambda>g. (int_of_digits g, fn)) (re_match roleGlobFnRegExp fn))
                        fileNames)
             in if versions = [] then Inl (FileNotFoundError (pattern roleGlobFnRegExp))
                else Inr versions))"

definition discoverVersionsFromFileNames ::
  "string \<Rightarrow> RoleFactory \<Rightarrow> string list \<Rightarrow> bool
     \<Rightarrow> error + FileNameDiscoveredMetadataVersionT list" where
  "discoverVersionsFromFileNames ext roleFactory fileNames isConsistent =
     (if CHR ''*'' \<in> set (name roleFactory) then Inl AssertionError
      else if isConsistent then
        map_sum id (map (\<lambda>(v, fn). (Some v, fn)))
          (discoverConsistentVersionsFromFileNames ext roleFactory fileNames)
      else Inr (discoverSipleVersionsFromFileNames ext roleFactory fileNames))"

subsection \<open>The metadata classes of python-tuf\<close>

text \<open>
  The payload classes come from python-tuf. The model keeps the fields the source reads or
  writes and the library's constructor defaults: a new \<open>Snapshot\<close> lists \<open>targets.json\<close> at
  version 1, a new \<open>Timestamp\<close> refers to snapshot version 1, a new \<open>Targets\<close> has no
  targets, a new \<open>Root\<close> has the four top-level roles without keys, and every new payload has
  version 1. Expiry dates and the specification version take no part in any operation below
  and are left out. A signature is kept symbolically, as the key and the payload it was made
  over; a key is identified by its key id. The checks the library makes on constructor
  arguments (such as refusing a version below 1) are not modelled; they can only matter when
  a record that was never signed, still at version 0, is bound into the snapshot.
\<close>

type_synonym Key = string

datatype MetaFile = MetaFile (mf_version: int)

record TargetFile =
  tf_length :: nat
  tf_hashes :: "(string \<times> string) list"
  tf_path :: string

datatype Payload =
    RootP bool "(string \<times> Key list) list"
  | TargetsP "(string \<times> TargetFile) list"
  | SnapshotP "(string \<times> MetaFile) list"
  | TimestampP MetaFile

record Signed =
  version :: int
  payload :: Payload

record Metadata =
  signed :: Signed
  signatures :: "(Key \<times> Signed) list"

text \<open>
  The constructor call \<open>self.ctor(expires=..., **kwargs)\<close>. The only keyword the source
  ever passes is \<open>consistent_snapshot\<close> (for the root); the other classes do not accept it.
\<close>

fun ctor_call :: "RoleKind \<Rightarrow> bool option \<Rightarrow> error + Signed" where
  "ctor_call Root kw =
     Inr \<lparr>version = 1,
          payload = RootP (case kw of None \<Rightarrow> True | Some c \<Rightarrow> c)
                      [(''root'', []), (''timestamp'', []), (''snapshot'', []), (''targets'', [])]\<rparr>"
| "ctor_call Targets None = Inr \<lparr>version = 1, payload = TargetsP []\<rparr>"
| "ctor_call Snapshot None =
     Inr \<lparr>version = 1, payload = SnapshotP [(''targets.json'', MetaFile 1)]\<rparr>"
| "ctor_call Timestamp None = Inr \<lparr>version = 1, payload = TimestampP (MetaFile 1)\<rparr>"
| "ctor_call _ (Some c) = Inl TypeError"

text \<open>Attribute access on a payload: a payload of another class has no such attribute.\<close>

fun consistent_snapshot :: "Signed \<Rightarrow> error + bool" where
  "consistent_snapshot s =
     (case payload s of RootP c rs \<Rightarrow> Inr c | _ \<Rightarrow> Inl (AttributeError ''consistent_snapshot''))"

fun targets_of :: "Signed \<Rightarrow> error + (string \<times> TargetFile) list" where
  "targets_of s = (case payload s of TargetsP ts \<Rightarrow> Inr ts | _ \<Rightarrow> Inl (AttributeError ''targets''))"

fun meta :: "Signed \<Rightarrow> error + (string \<times> MetaFile) list" where
  "meta s = (case payload s of SnapshotP m \<Rightarrow> Inr m | _ \<Rightarrow> Inl (AttributeError ''meta''))"

fun snapshot_meta :: "Signed \<Rightarrow> error + MetaFile" where
  "snapshot_meta s =
     (case payload s of TimestampP mf \<Rightarrow> Inr mf | _ \<Rightarrow> Inl (AttributeError ''snapshot_meta''))"

text \<open>\<open>Root.add_key(key, role)\<close>: the role must exist; a key already listed is not repeated.\<close>

fun add_key :: "Key \<Rightarrow> string \<Rightarrow> Signed \<Rightarrow> error + Signed" where
  "add_key key roleName s =
     (case payload s of
        RootP c rs \<Rightarrow>
          (case map_of rs roleName of
             None \<Rightarrow> Inl (ValueError_NoSuchRole roleName)
           | Some ks \<Rightarrow>
               Inr (s\<lparr>payload :=
                      RootP c (AList.update roleName (if key \<in> set ks then ks else ks @ [key]) rs)\<rparr>))
      | _ \<Rightarrow> Inl (AttributeError ''add_key''))"

text \<open>\<open>Metadata.sign(signer)\<close> replaces the signatures by one over the current payload.\<close>

definition Metadata_sign :: "Key \<Rightarrow> Metadata \<Rightarrow> Metadata" where
  "Metadata_sign key md = md\<lparr>signatures := [(key, signed md)]\<rparr>"

text \<open>\<open>TargetFile.from_data\<close>, over the hash function \<open>sha256\<close> (hex digest) of the library.\<close>

definition from_data :: "(string \<Rightarrow> string) \<Rightarrow> string \<Rightarrow> string \<Rightarrow> TargetFile" where
  "from_data sha256 target_file_path data =
     \<lparr>tf_length = length data, tf_hashes = [(''sha256'', sha256 data)],
      tf_path = target_file_path\<rparr>"

subsection \<open>Role records (\<open>OurRole\<close>)\<close>

record OurRole =
  fac :: RoleFactory
  role :: Metadata
  needsSigning :: bool
  needsSaving :: bool

definition OurRole_init :: "RoleFactory \<Rightarrow> Metadata \<Rightarrow> OurRole" where
  "OurRole_init f md = \<lparr>fac = f, role = md, needsSigning = False, needsSaving = False\<rparr>"

definition OurRole_name :: "OurRole \<Rightarrow> string" where
  "OurRole_name r = name (fac r)"

definition needsSigning_setter :: "bool \<Rightarrow> OurRole \<Rightarrow> OurRole" where
  "needsSigning_setter v r =
     (if needsSigning r \<noteq> v then r\<lparr>needsSaving := True, needsSigning := v\<rparr> else r)"

definition needsSaving_setter :: "bool \<Rightarrow> OurRole \<Rightarrow> OurRole" where
  "needsSaving_setter v r = r\<lparr>needsSaving := v\<rparr>"

definition OurRole__version :: "OurRole \<Rightarrow> int" where
  "OurRole__version r = version (signed (role r))"

definition OurRole__version_setter :: "int \<Rightarrow> OurRole \<Rightarrow> OurRole" where
  "OurRole__version_setter v r =
     needsSigning_setter True (r\<lparr>role := (role r)\<lparr>signed := (signed (role r))\<lparr>version := v\<rparr>\<rparr>\<rparr>)"

definition OurRole_version :: "OurRole \<Rightarrow> int" where
  "OurRole_version r = OurRole__version r"

definition OurRole_version_setter :: "int \<Rightarrow> OurRole \<Rightarrow> (error + unit) \<times> OurRole" where
  "OurRole_version_setter v r =
     (if v < OurRole_version r then (Inl (ValueError_VersionDecrease (OurRole_version r) v), r)
      else if v \<noteq> OurRole_version r then (Inr (), OurRole__version_setter v r)
      else (Inr (), r))"

definition bumpVersion :: "OurRole \<Rightarrow> OurRole" where
  "bumpVersion r = OurRole__version_setter (OurRole_version r + 1) r"

definition OurRole_sign :: "Key \<Rightarrow> OurRole \<Rightarrow> bool \<times> OurRole" where
  "OurRole_sign key r =
     (if needsSigning r then
        (let r1 = bumpVersion r;
             r2 = r1\<lparr>role := Metadata_sign key (role r1)\<rparr>;
             r3 = needsSigning_setter False r2;
             r4 = needsSaving_setter True r3
         in (True, r4))
      else (False, r))"

text \<open>\<open>RoleFactory.fromDict\<close> and \<open>RoleFactory.createEmpty\<close> (\<open>OurRole.createEmpty\<close> delegates).\<close>

definition fromDict :: "RoleFactory \<Rightarrow> Metadata \<Rightarrow> OurRole" where
  "fromDict f dic = OurRole_init f dic"

definition createEmpty :: "RoleFactory \<Rightarrow> bool option \<Rightarrow> error + OurRole" where
  "createEmpty f kwargs =
     (case ctor_call (ctor f) kwargs of
        Inl e \<Rightarrow> Inl e
      | Inr s \<Rightarrow> Inr (OurRole__version_setter 0 (OurRole_init f \<lparr>signed = s, signatures = []\<rparr>)))"

subsection \<open>The key manager\<close>

type_synonym KeyManager = "(string \<times> Key) list"

definition KeyManager_sign :: "KeyManager \<Rightarrow> OurRole \<Rightarrow> (error + bool) \<times> OurRole" where
  "KeyManager_sign ks oR =
     (case map_of ks (OurRole_name oR) of
        None \<Rightarrow> (Inl (KeyError (OurRole_name oR)), oR)
      | Some key \<Rightarrow> (let (b, oR') = OurRole_sign key oR in (Inr b, oR')))"

definition fromSingleKey :: "Key \<Rightarrow> string list \<Rightarrow> KeyManager" where
  "fromSingleKey key roleNames = foldl (\<lambda>d rn. AList.update rn key d) [] roleNames"

definition keyManagerFromSingleKey :: "RolesModel \<Rightarrow> Key \<Rightarrow> KeyManager" where
  "keyManagerFromSingleKey model rolesKey = fromSingleKey rolesKey (name rootRoleFac # map fst model)"

subsection \<open>The repository directory and the persister (\<open>RolePersister\<close>)\<close>

text \<open>
  A repository directory is a flat dict from file name to content; \<open>repoRoot / fileName\<close>
  is the entry \<open>fileName\<close>, and \<open>iterdir\<close> lists the names in the order of the list. The
  directory is assumed to exist and to be writable. The text codec is an external
  collaborator: a file is modelled by the metadata value its text decodes to
  (\<open>Encoded\<close>), or as bytes that do not decode to a metadata dict (\<open>Bytes\<close>). The parameter
  \<open>ext\<close> is \<open>self.serializer.fileExtension\<close>.
\<close>

datatype FileContent = Encoded Metadata | Bytes string

type_synonym Directory = "(string \<times> FileContent) list"

definition save_raw :: "string \<Rightarrow> Directory \<Rightarrow> bool \<Rightarrow> OurRole \<Rightarrow> Directory" where
  "save_raw ext repoRoot isConsistent r =
     AList.update (getFileName ext (fac r) (I (OurRole_version r)) isConsistent)
       (Encoded (role r)) repoRoot"

definition save :: "string \<Rightarrow> Directory \<Rightarrow> bool \<Rightarrow> OurRole \<Rightarrow> (error + unit) \<times> Directory \<times> OurRole" where
  "save ext repoRoot isConsistent r =
     (if needsSaving r then
        (if needsSigning r then (Inl (RuntimeError_Unsigned (OurRole_name r)), repoRoot, r)
         else (Inr (), save_raw ext repoRoot isConsistent r, needsSaving_setter False r))
      else (Inr (), repoRoot, r))"

definition discoverFilesInRepoRoot :: "Directory \<Rightarrow> string list" where
  "discoverFilesInRepoRoot repoRoot = map fst repoRoot"

definition discoverSimple :: "string \<Rightarrow> RoleFactory \<Rightarrow> int option \<times> string" where
  "discoverSimple ext roleFactory = (None, getSimpleFileName ext (name roleFactory))"

definition discoverConsistent :: "string \<Rightarrow> RoleFactory \<Rightarrow> Directory \<Rightarrow> error + int option \<times> string" where
  "discoverConsistent ext roleFactory repoRoot =
     (case discoverConsistentVersionsFromFileNames ext roleFactory (discoverFilesInRepoRoot repoRoot) of
        Inl e \<Rightarrow> Inl e
      | Inr versions \<Rightarrow>
          (case rev versions of
             [] \<Rightarrow> Inl IndexError
           | (v, fileName) # _ \<Rightarrow> Inr (Some v, fileName)))"

definition discoverBlindFromRepo ::
  "string \<Rightarrow> RoleFactory \<Rightarrow> Directory \<Rightarrow> bool \<Rightarrow> error + int option \<times> string" where
  "discoverBlindFromRepo ext roleFactory repoRoot isConsistent =
     (if CHR ''*'' \<in> set (name roleFactory) then Inl AssertionError
      else if isConsistent then discoverConsistent ext roleFactory repoRoot
      else Inr (discoverSimple ext roleFactory))"

definition deserializeData :: "FileContent \<Rightarrow> error + Metadata" where
  "deserializeData data = (case data of Encoded dic \<Rightarrow> Inr dic | Bytes b \<Rightarrow> Inl DeserializationError)"

definition loadFromData :: "RoleFactory \<Rightarrow> FileContent \<Rightarrow> int option \<Rightarrow> error + OurRole" where
  "loadFromData roleFactory data expectedVersion =
     (case deserializeData data of
        Inl e \<Rightarrow> Inl e
      | Inr dic \<Rightarrow>
          (let loaded = fromDict roleFactory dic in
           case expectedVersion of
             None \<Rightarrow> Inr loaded
           | Some ev \<Rightarrow>
               if OurRole_version loaded \<noteq> ev
               then Inl (RuntimeError_VersionWithinFile (name roleFactory) ev (OurRole_version loaded))
               else Inr loaded))"

definition loadFromFile :: "RoleFactory \<Rightarrow> Directory \<Rightarrow> string \<Rightarrow> int option \<Rightarrow> error + OurRole" where
  "loadFromFile roleFactory repoRoot path expectedVersion =
     (case map_of repoRoot path of
        None \<Rightarrow> Inl (FileNotFoundError path)
      | Some data \<Rightarrow> loadFromData roleFactory data expectedVersion)"

definition loadFromRepo ::
  "string \<Rightarrow> RoleFactory \<Rightarrow> Directory \<Rightarrow> bool \<Rightarrow> int option \<Rightarrow> error + OurRole" where
  "loadFromRepo ext roleFactory repoRoot isConsistent versionToLoad =
     (case versionToLoad of
        None \<Rightarrow>
          (case discoverBlindFromRepo ext roleFactory repoRoot isConsistent of
             Inl e \<Rightarrow> Inl e
           | Inr (fileNameVersion, filePath) \<Rightarrow>
               loadFromFile roleFactory repoRoot filePath
                 (if isConsistent then fileNameVersion else None))
      | Some v \<Rightarrow>
          loadFromFile roleFactory repoRoot (getFileName ext roleFactory (I v) isConsistent) (Some v))"

text \<open>\<open>except FileNotFoundError\<close> absorbs that exception only; every other one propagates.\<close>

definition loadOrCreate ::
  "string \<Rightarrow> RoleFactory \<Rightarrow> Directory option \<Rightarrow> bool \<Rightarrow> int option \<Rightarrow> bool option
     \<Rightarrow> error + OurRole \<times> bool" where
  "loadOrCreate ext roleFactory repoRoot isConsistent versionToLoad kwargs =
     (case repoRoot of
        Some d \<Rightarrow>
          (case loadFromRepo ext roleFactory d isConsistent versionToLoad of
             Inr r \<Rightarrow> Inr (r, True)
           | Inl (FileNotFoundError x) \<Rightarrow> map_sum id (\<lambda>r. (r, False)) (createEmpty roleFactory kwargs)
           | Inl e \<Rightarrow> Inl e)
      | None \<Rightarrow> map_sum id (\<lambda>r. (r, False)) (createEmpty roleFactory kwargs))"

subsection \<open>The reconciliation strategy (\<open>RolesStrategy\<close>)\<close>

definition isRoleConsistent :: "RoleFactory \<Rightarrow> bool \<Rightarrow> bool" where
  "isRoleConsistent roleFactory isConsistent \<longleftrightarrow> isConsistent \<and> hasVersion roleFactory"

definition fileNameForRole :: "string \<Rightarrow> RoleFactory \<Rightarrow> int_or_str \<Rightarrow> bool \<Rightarrow> string" where
  "fileNameForRole ext roleFactory roleVersion isConsistent =
     getFileName ext roleFactory roleVersion (isRoleConsistent roleFactory isConsistent)"

definition Strategy_loadOrCreate ::
  "string \<Rightarrow> RoleFactory \<Rightarrow> Directory option \<Rightarrow> bool \<Rightarrow> int option \<Rightarrow> error + OurRole \<times> bool" where
  "Strategy_loadOrCreate ext roleFactory repoRoot isConsistent versionToLoad =
     loadOrCreate ext roleFactory repoRoot (isRoleConsistent roleFactory isConsistent) versionToLoad None"

definition Strategy_save ::
  "string \<Rightarrow> Directory \<Rightarrow> bool \<Rightarrow> OurRole \<Rightarrow> (error + unit) \<times> Directory \<times> OurRole" where
  "Strategy_save ext repoRoot isConsistent r =
     save ext repoRoot (isRoleConsistent (fac r) isConsistent) r"

definition createEmptyRoot :: "bool \<Rightarrow> error + OurRole" where
  "createEmptyRoot consistent = createEmpty rootRoleFac (Some consistent)"

type_synonym RolesDict = "(string \<times> OurRole) list"

text \<open>
  \<open>loadOrCreateRoles\<close>, lines 411 to 421: the timestamp, then the snapshot at the version the
  timestamp refers to; the result is the dict so far and \<open>signedMetadataFiles\<close>.
\<close>

definition loadTimestampAndSnapshot ::
  "RolesModel \<Rightarrow> string \<Rightarrow> Directory option \<Rightarrow> error + RolesDict \<times> (string \<times> MetaFile) list" where
  "loadTimestampAndSnapshot model ext repoRoot =
     (case map_of model ''timestamp'' of
        None \<Rightarrow> Inl (KeyError ''timestamp'')
      | Some tsFac \<Rightarrow>
     (case Strategy_loadOrCreate ext tsFac repoRoot False None of
        Inl e \<Rightarrow> Inl e
      | Inr (ts, isLoaded) \<Rightarrow>
     (case map_of model ''snapshot'' of
        None \<Rightarrow> Inl (KeyError ''snapshot'')
      | Some snFac \<Rightarrow>
     (case snapshot_meta (signed (role ts)) of
        Inl e \<Rightarrow> Inl e
      | Inr mf \<Rightarrow>
     (case Strategy_loadOrCreate ext snFac repoRoot False (Some (mf_version mf)) of
        Inl e \<Rightarrow> Inl e
      | Inr (sn, isSnapshotLoaded) \<Rightarrow>
     (case meta (signed (role sn)) of
        Inl e \<Rightarrow> Inl e
      | Inr m \<Rightarrow>
          (let sn' = (if \<not> isSnapshotLoaded
                      then sn\<lparr>role := (role sn)\<lparr>signed := (signed (role sn))\<lparr>payload := SnapshotP []\<rparr>\<rparr>\<rparr>
                      else sn);
               signedMetadataFiles = (if \<not> isSnapshotLoaded then [] else m)
           in Inr ([(''timestamp'', ts), (''snapshot'', sn')], signedMetadataFiles))))))))"

text \<open>The body of the loop over the remaining roles, lines 424 to 440, for one factory.\<close>

definition loadRole ::
  "string \<Rightarrow> Directory option \<Rightarrow> bool \<Rightarrow> (string \<times> MetaFile) list \<Rightarrow> RoleFactory \<Rightarrow> error + OurRole" where
  "loadRole ext repoRoot isConsistent signedMetadataFiles f =
     (case discoverVersionsFromFileNames ext f (map fst signedMetadataFiles)
             (isRoleConsistent f isConsistent) of
        Inl e \<Rightarrow> Inl e
      | Inr [] \<Rightarrow> createEmpty f None
      | Inr [(expectedVersionFromFileName, fileName)] \<Rightarrow>
          (case map_of signedMetadataFiles fileName of
             None \<Rightarrow> Inl (KeyError fileName)
           | Some mf \<Rightarrow>
               (let expectedVersion = mf_version mf in
                if expectedVersionFromFileName \<noteq> None
                   \<and> expectedVersion \<noteq> the expectedVersionFromFileName
                then Inl (ValueError_VersionFromFileName fileName
                            (the expectedVersionFromFileName) expectedVersion)
                else
                  (case repoRoot of
                     None \<Rightarrow> Inl TypeError
                   | Some d \<Rightarrow> loadFromFile f d fileName (Some expectedVersion))))
      | Inr versionsFromFileNames \<Rightarrow> Inl (RuntimeError_NotUnique (name f) versionsFromFileNames))"

fun loadRoles_loop ::
  "RolesModel \<Rightarrow> string \<Rightarrow> Directory option \<Rightarrow> bool \<Rightarrow> (string \<times> MetaFile) list
     \<Rightarrow> string list \<Rightarrow> RolesDict \<times> string list \<Rightarrow> error + RolesDict \<times> string list" where
  "loadRoles_loop model ext repoRoot isConsistent smf [] st = Inr st"
| "loadRoles_loop model ext repoRoot isConsistent smf (rn # rns) (rolesDict, rolesToLoad) =
     (case map_of model rn of
        None \<Rightarrow> Inl (KeyError rn)
      | Some f \<Rightarrow>
          (case loadRole ext repoRoot isConsistent smf f of
             Inl e \<Rightarrow> Inl e
           | Inr r \<Rightarrow>
               loadRoles_loop model ext repoRoot isConsistent smf rns
                 (AList.update (name f) r rolesDict, removeAll (name f) rolesToLoad)))"

definition rolesToLoad_of :: "RolesModel \<Rightarrow> RolesDict \<Rightarrow> string list" where
  "rolesToLoad_of model rolesDict =
     sort (remdups (filter (\<lambda>k. k \<notin> set (map fst rolesDict)) (map fst model)))"

definition loadOrCreateRoles ::
  "RolesModel \<Rightarrow> string \<Rightarrow> Directory option \<Rightarrow> bool \<Rightarrow> error + RolesDict" where
  "loadOrCreateRoles model ext repoRoot isConsistent =
     (case loadTimestampAndSnapshot model ext repoRoot of
        Inl e \<Rightarrow> Inl e
      | Inr (rolesDict, signedMetadataFiles) \<Rightarrow>
          (let rolesToLoad = rolesToLoad_of model rolesDict in
           case loadRoles_loop model ext repoRoot isConsistent signedMetadataFiles
                  rolesToLoad (rolesDict, rolesToLoad) of
             Inl e \<Rightarrow> Inl e
           | Inr (rolesDict', rolesToLoad') \<Rightarrow>
               if rolesToLoad' \<noteq> [] then Inl (RuntimeError_NotAllRolesLoaded rolesToLoad')
               else Inr rolesDict'))"

subsection \<open>The repository seed (\<open>RepoSeed\<close>)\<close>

text \<open>
  \<open>RepoSeed.STRATEGY\<close> is fixed: the JSON serializer, whose file extension is \<open>json\<close>, and
  \<open>ROLES_MODEL\<close>. The builder reaches the strategy through its seed.
\<close>

definition fileExtension :: string where
  "fileExtension = ''json''"

record RepoSeed =
  seed_root :: OurRole
  seed_keys :: KeyManager

definition isConsistent :: "RepoSeed \<Rightarrow> error + bool" where
  "isConsistent sd = consistent_snapshot (signed (role (seed_root sd)))"

definition root_add_key :: "KeyManager \<Rightarrow> string \<Rightarrow> string \<Rightarrow> OurRole \<Rightarrow> error + OurRole" where
  "root_add_key ks keyOf roleName r =
     (case map_of ks keyOf of
        None \<Rightarrow> Inl (KeyError keyOf)
      | Some key \<Rightarrow>
          (case add_key key roleName (signed (role r)) of
             Inl e \<Rightarrow> Inl e
           | Inr s \<Rightarrow> Inr (r\<lparr>role := (role r)\<lparr>signed := s\<rparr>\<rparr>)))"

fun add_keys :: "KeyManager \<Rightarrow> (string \<times> string) list \<Rightarrow> OurRole \<Rightarrow> error + OurRole" where
  "add_keys ks [] r = Inr r"
| "add_keys ks ((keyOf, roleName) # rest) r =
     (case root_add_key ks keyOf roleName r of
        Inl e \<Rightarrow> Inl e
      | Inr r' \<Rightarrow> add_keys ks rest r')"

text \<open>
  \<open>RepoSeed.make\<close>: the list gives, in the order of the source's loops, whose key is
  registered under which role name.
\<close>

definition make_registrations :: "RolesModel \<Rightarrow> bool \<Rightarrow> (string \<times> string) list" where
  "make_registrations model allowParentKeys =
     (name rootRoleFac, name rootRoleFac) #
     concat (map (\<lambda>(k, roleFac).
                    (name roleFac, name roleFac) #
                    (if allowParentKeys
                     then map (\<lambda>depRole. (name depRole, name roleFac)) (collectParentRoles roleFac)
                     else []))
                 model)"

definition RepoSeed_make :: "KeyManager \<Rightarrow> bool \<Rightarrow> bool \<Rightarrow> error + RepoSeed" where
  "RepoSeed_make ks consistent allowParentKeys =
     (case createEmptyRoot consistent of
        Inl e \<Rightarrow> Inl e
      | Inr root0 \<Rightarrow>
          (case add_keys ks (make_registrations ROLES_MODEL allowParentKeys) root0 of
             Inl e \<Rightarrow> Inl e
           | Inr root1 \<Rightarrow>
               (case KeyManager_sign ks root1 of
                  (Inl e, r) \<Rightarrow> Inl e
                | (Inr b, root2) \<Rightarrow> Inr \<lparr>seed_root = root2, seed_keys = ks\<rparr>)))"

subsection \<open>The repository builder (\<open>RepoBuilder\<close>)\<close>

record RepoBuilder =
  seed :: RepoSeed
  keys :: KeyManager
  ourRoles :: RolesDict
  userFiles :: "(string \<times> string) list"

definition load :: "RepoBuilder \<Rightarrow> Directory option \<Rightarrow> error + RepoBuilder" where
  "load b repoRoot =
     (case isConsistent (seed b) of
        Inl e \<Rightarrow> Inl e
      | Inr c \<Rightarrow>
          (case loadOrCreateRoles ROLES_MODEL fileExtension repoRoot c of
             Inl e \<Rightarrow> Inl e
           | Inr rolesDict \<Rightarrow>
               Inr (b\<lparr>ourRoles := foldl (\<lambda>d (k, r). AList.update k r d) (ourRoles b) rolesDict\<rparr>)))"

definition RepoBuilder_init :: "RepoSeed \<Rightarrow> KeyManager \<Rightarrow> Directory option \<Rightarrow> error + RepoBuilder" where
  "RepoBuilder_init sd ks repoRoot =
     load \<lparr>seed = sd, keys = ks, ourRoles = [], userFiles = []\<rparr> repoRoot"

text \<open>The properties \<open>targets\<close>, \<open>snapshot\<close> and \<open>timestamp\<close> are \<open>self.ourRoles[...]\<close>.\<close>

definition ourRole :: "RepoBuilder \<Rightarrow> string \<Rightarrow> error + OurRole" where
  "ourRole b k = (case map_of (ourRoles b) k of None \<Rightarrow> Inl (KeyError k) | Some r \<Rightarrow> Inr r)"

definition set_ourRole :: "string \<Rightarrow> OurRole \<Rightarrow> RepoBuilder \<Rightarrow> RepoBuilder" where
  "set_ourRole k r b = b\<lparr>ourRoles := AList.update k r (ourRoles b)\<rparr>"

definition set_payload :: "Payload \<Rightarrow> OurRole \<Rightarrow> OurRole" where
  "set_payload p r = r\<lparr>role := (role r)\<lparr>signed := (signed (role r))\<lparr>payload := p\<rparr>\<rparr>\<rparr>"

text \<open>\<open>self.X.needsSigning = True; self.keys.sign(self.X)\<close>, the end of each cascade step.\<close>

definition mark_and_sign :: "string \<Rightarrow> RepoBuilder \<Rightarrow> error + RepoBuilder" where
  "mark_and_sign k b =
     (case ourRole b k of
        Inl e \<Rightarrow> Inl e
      | Inr r \<Rightarrow>
          (case KeyManager_sign (keys b) (needsSigning_setter True r) of
             (Inl e, r') \<Rightarrow> Inl e
           | (Inr signed_now, r') \<Rightarrow> Inr (set_ourRole k r' b)))"

fun bindContent_loop ::
  "(string \<Rightarrow> string) \<Rightarrow> (string \<times> string) list \<Rightarrow> RepoBuilder \<Rightarrow> error + RepoBuilder" where
  "bindContent_loop sha256 [] b = Inr b"
| "bindContent_loop sha256 ((localTargetPath, data) # rest) b =
     (case ourRole b ''targets'' of
        Inl e \<Rightarrow> Inl e
      | Inr r \<Rightarrow>
          (case targets_of (signed (role r)) of
             Inl e \<Rightarrow> Inl e
           | Inr ts \<Rightarrow>
               bindContent_loop sha256 rest
                 (set_ourRole ''targets''
                    (set_payload
                       (TargetsP (AList.update localTargetPath
                                    (from_data sha256 localTargetPath data) ts)) r) b)))"

definition bindContent :: "(string \<Rightarrow> string) \<Rightarrow> RepoBuilder \<Rightarrow> error + RepoBuilder" where
  "bindContent sha256 b =
     (case bindContent_loop sha256 (userFiles b) b of
        Inl e \<Rightarrow> Inl e
      | Inr b' \<Rightarrow> mark_and_sign ''targets'' b')"

definition EXCLUDED_FROM_SNAPSHOT :: "OurRole \<Rightarrow> bool" where
  "EXCLUDED_FROM_SNAPSHOT oR =
     (case payload (signed (role oR)) of SnapshotP m \<Rightarrow> True | TimestampP mf \<Rightarrow> True | _ \<Rightarrow> False)"

fun bindMetadata_loop :: "OurRole list \<Rightarrow> RepoBuilder \<Rightarrow> error + RepoBuilder" where
  "bindMetadata_loop [] b = Inr b"
| "bindMetadata_loop (oR # rest) b =
     (if \<not> EXCLUDED_FROM_SNAPSHOT oR then
        (case isConsistent (seed b) of
           Inl e \<Rightarrow> Inl e
         | Inr c \<Rightarrow>
             (let fileName = fileNameForRole fileExtension (fac oR) (I (OurRole_version oR)) c in
              case ourRole b ''snapshot'' of
                Inl e \<Rightarrow> Inl e
              | Inr sn \<Rightarrow>
                  (case meta (signed (role sn)) of
                     Inl e \<Rightarrow> Inl e
                   | Inr m \<Rightarrow>
                       bindMetadata_loop rest
                         (set_ourRole ''snapshot''
                            (set_payload
                               (SnapshotP (AList.update fileName
                                             (MetaFile (version (signed (role oR)))) m)) sn) b))))
      else bindMetadata_loop rest b)"

definition bindMetadata :: "RepoBuilder \<Rightarrow> error + RepoBuilder" where
  "bindMetadata b =
     (case bindMetadata_loop (map snd (ourRoles b)) b of
        Inl e \<Rightarrow> Inl e
      | Inr b' \<Rightarrow> mark_and_sign ''snapshot'' b')"

definition stamp :: "RepoBuilder \<Rightarrow> error + RepoBuilder" where
  "stamp b =
     (case ourRole b ''snapshot'' of
        Inl e \<Rightarrow> Inl e
      | Inr sn \<Rightarrow>
          (case ourRole b ''timestamp'' of
             Inl e \<Rightarrow> Inl e
           | Inr ts \<Rightarrow>
               (case snapshot_meta (signed (role ts)) of
                  Inl e \<Rightarrow> Inl e
                | Inr mf \<Rightarrow>
                    mark_and_sign ''timestamp''
                      (set_ourRole ''timestamp''
                         (set_payload (TimestampP (MetaFile (version (signed (role sn))))) ts) b))))"

definition makeSnapshot :: "(string \<Rightarrow> string) \<Rightarrow> RepoBuilder \<Rightarrow> error + RepoBuilder" where
  "makeSnapshot sha256 b =
     (case bindContent sha256 b of
        Inl e \<Rightarrow> Inl e
      | Inr b1 \<Rightarrow> (case bindMetadata b1 of Inl e \<Rightarrow> Inl e | Inr b2 \<Rightarrow> stamp b2))"

text \<open>
  Saving. The directory outlives an exception, so the writers return the directory as it is
  when they stop, together with the records as they are then.
\<close>

fun saveMeta_loop :: "RepoSeed \<Rightarrow> RolesDict \<Rightarrow> Directory \<Rightarrow> (error + unit) \<times> Directory \<times> RolesDict" where
  "saveMeta_loop sd [] d = (Inr (), d, [])"
| "saveMeta_loop sd ((k, oR) # rest) d =
     (case isConsistent sd of
        Inl e \<Rightarrow> (Inl e, d, (k, oR) # rest)
      | Inr c \<Rightarrow>
          (case Strategy_save fileExtension d c oR of
             (Inl e, d', oR') \<Rightarrow> (Inl e, d', (k, oR') # rest)
           | (Inr u, d', oR') \<Rightarrow>
               (case saveMeta_loop sd rest d' of
                  (res, d'', rest') \<Rightarrow> (res, d'', (k, oR') # rest'))))"

definition saveMeta :: "Directory \<Rightarrow> RepoBuilder \<Rightarrow> (error + unit) \<times> Directory \<times> RepoBuilder" where
  "saveMeta repoRoot b =
     (case saveMeta_loop (seed b) (ourRoles b) repoRoot of
        (res, d, rolesDict) \<Rightarrow> (res, d, b\<lparr>ourRoles := rolesDict\<rparr>))"

definition getPrefixForUserFile :: "RepoBuilder \<Rightarrow> string \<Rightarrow> error + string" where
  "getPrefixForUserFile b fn =
     (case isConsistent (seed b) of
        Inl e \<Rightarrow> Inl e
      | Inr False \<Rightarrow> Inr []
      | Inr True \<Rightarrow>
          (case ourRole b ''targets'' of
             Inl e \<Rightarrow> Inl e
           | Inr r \<Rightarrow>
               (case targets_of (signed (role r)) of
                  Inl e \<Rightarrow> Inl e
                | Inr ts \<Rightarrow>
                    (case map_of ts fn of
                       None \<Rightarrow> Inl (KeyError fn)
                     | Some t \<Rightarrow>
                         (case map_of (tf_hashes t) ''sha256'' of
                            None \<Rightarrow> Inl (KeyError ''sha256'')
                          | Some h \<Rightarrow> Inr (h @ ''.''))))))"

fun saveFiles_loop :: "RepoBuilder \<Rightarrow> (string \<times> string) list \<Rightarrow> Directory \<Rightarrow> (error + unit) \<times> Directory" where
  "saveFiles_loop b [] d = (Inr (), d)"
| "saveFiles_loop b ((fn, data) # rest) d =
     (case getPrefixForUserFile b fn of
        Inl e \<Rightarrow> (Inl e, d)
      | Inr pre \<Rightarrow> saveFiles_loop b rest (AList.update (pre @ fn) (Bytes data) d))"

definition saveFiles :: "Directory \<Rightarrow> RepoBuilder \<Rightarrow> (error + unit) \<times> Directory" where
  "saveFiles repoRoot b = saveFiles_loop b (userFiles b) repoRoot"

definition RepoBuilder_save :: "Directory \<Rightarrow> RepoBuilder \<Rightarrow> (error + unit) \<times> Directory \<times> RepoBuilder" where
  "RepoBuilder_save repoRoot b =
     (case saveMeta repoRoot b of
        (Inl e, d, b') \<Rightarrow> (Inl e, d, b')
      | (Inr u, d, b') \<Rightarrow> (case saveFiles d b' of (res, d') \<Rightarrow> (res, d', b')))"

subsection \<open>Sequences of operations on one role record\<close>

text \<open>
  The operations a caller can apply to a role record, and the record they leave behind
  (an operation that raises leaves the record as it is at the \<open>raise\<close>).
\<close>

datatype RoleOp =
    Op_version_setter int
  | Op_bumpVersion
  | Op_sign Key
  | Op_save Directory bool
  | Op_needsSigning_setter bool

fun apply_op :: "string \<Rightarrow> RoleOp \<Rightarrow> OurRole \<Rightarrow> OurRole" where
  "apply_op ext (Op_version_setter v) r = snd (OurRole_version_setter v r)"
| "apply_op ext Op_bumpVersion r = bumpVersion r"
| "apply_op ext (Op_sign key) r = snd (OurRole_sign key r)"
| "apply_op ext (Op_save d c) r = snd (snd (save ext d c r))"
| "apply_op ext (Op_needsSigning_setter v) r = needsSigning_setter v r"

definition apply_ops :: "string \<Rightarrow> RoleOp list \<Rightarrow> OurRole \<Rightarrow> OurRole" where
  "apply_ops ext ops r = foldl (\<lambda>r' op. apply_op ext op r') r ops"

definition dirty_implies_unsaved :: "OurRole \<Rightarrow> bool" where
  "dirty_implies_unsaved r \<longleftrightarrow> (needsSigning r \<longrightarrow> needsSaving r)"

text \<open>
  The characters of a role name or an extension that the pattern built by discovery matches
  literally: the dot, which the source escapes, and every character that is not special in
  a regular expression.
\<close>

definition literal_char :: "char \<Rightarrow> bool" where
  "literal_char c \<longleftrightarrow> c = CHR ''.'' \<or> \<not> regex_special c"

text \<open>
  \<open>self.snapshot.role.signed.meta\<close>, and the entries that \<open>bindMetadata\<close> writes: for each
  record that is not excluded, in the order of the records, its file name under the
  consistency mode \<open>c\<close> and its version.
\<close>

definition snapshot_meta_files :: "RepoBuilder \<Rightarrow> error + (string \<times> MetaFile) list" where
  "snapshot_meta_files b =
     (case ourRole b ''snapshot'' of Inl e \<Rightarrow> Inl e | Inr sn \<Rightarrow> meta (signed (role sn)))"

definition snapshot_entries :: "bool \<Rightarrow> OurRole list \<Rightarrow> (string \<times> MetaFile) list" where
  "snapshot_entries c roles =
     map (\<lambda>oR. (fileNameForRole fileExtension (fac oR) (I (OurRole_version oR)) c,
                 MetaFile (version (signed (role oR)))))
       (filter (\<lambda>oR. \<not> EXCLUDED_FROM_SNAPSHOT oR) roles)"

section \<open>Properties\<close>

lemmas role_defs = OurRole_sign_def bumpVersion_def OurRole__version_setter_def OurRole_version_def
  OurRole__version_def needsSigning_setter_def needsSaving_setter_def Metadata_sign_def
  OurRole_version_setter_def

subsection \<open>Signing and versions\<close>

text \<open>
  C2. \<open>bumpVersion\<close> raises the version by exactly one. Signing a dirty record returns
  \<open>True\<close> and leaves the version one above the previous one, the record clean and in need
  of saving; signing a record that is not dirty returns \<open>False\<close> and changes nothing. The
  key manager's \<open>sign\<close> is the record's \<open>sign\<close> with the key registered under the role name.
\<close>

theorem sign_bumps_version_by_one:
  "OurRole_version (bumpVersion r) = OurRole_version r + 1
   \<and> (needsSigning r \<longrightarrow>
        fst (OurRole_sign key r) = True
        \<and> OurRole_version (snd (OurRole_sign key r)) = OurRole_version r + 1
        \<and> \<not> needsSigning (snd (OurRole_sign key r))
        \<and> needsSaving (snd (OurRole_sign key r)))
   \<and> (\<not> needsSigning r \<longrightarrow> OurRole_sign key r = (False, r))
   \<and> (map_of ks (OurRole_name r) = Some key \<longrightarrow>
        KeyManager_sign ks r = (Inr (fst (OurRole_sign key r)), snd (OurRole_sign key r)))"
  by (simp add: role_defs KeyManager_sign_def Let_def split: prod.split)

theorem sign_bumps_version_by_one_witness:
  "needsSigning (OurRole__version_setter 4 (fromDict targetsRoleFac \<lparr>signed = \<lparr>version = 3, payload = TargetsP []\<rparr>, signatures = []\<rparr>))
   \<and> KeyManager_sign [(''targets'', ''k'')]
        (OurRole__version_setter 4 (fromDict targetsRoleFac \<lparr>signed = \<lparr>version = 3, payload = TargetsP []\<rparr>, signatures = []\<rparr>))
       = (Inr True,
          \<lparr>fac = targetsRoleFac,
           role = \<lparr>signed = \<lparr>version = 5, payload = TargetsP []\<rparr>,
                   signatures = [(''k'', \<lparr>version = 5, payload = TargetsP []\<rparr>)]\<rparr>,
           needsSigning = False, needsSaving = True\<rparr>)
   \<and> \<not> needsSigning (fromDict targetsRoleFac \<lparr>signed = \<lparr>version = 3, payload = TargetsP []\<rparr>, signatures = []\<rparr>)
   \<and> OurRole_sign ''k'' (fromDict targetsRoleFac \<lparr>signed = \<lparr>version = 3, payload = TargetsP []\<rparr>, signatures = []\<rparr>)
       = (False, fromDict targetsRoleFac \<lparr>signed = \<lparr>version = 3, payload = TargetsP []\<rparr>, signatures = []\<rparr>)"
  using sign_bumps_version_by_one
          [of "OurRole__version_setter 4 (fromDict targetsRoleFac \<lparr>signed = \<lparr>version = 3, payload = TargetsP []\<rparr>, signatures = []\<rparr>)"
              "''k''" "[(''targets'', ''k'')]"]
        sign_bumps_version_by_one
          [of "fromDict targetsRoleFac \<lparr>signed = \<lparr>version = 3, payload = TargetsP []\<rparr>, signatures = []\<rparr>" "''k''" "[]"]
  by (simp add: role_defs fromDict_def OurRole_init_def OurRole_name_def targetsRoleFac_def Let_def)

text \<open>
  C7. Setting the version to a value strictly below the current one raises the
  version-decrease error and leaves the whole record, hence its version, unchanged; setting
  it to a strictly higher value succeeds, stores that value and marks the record dirty.
\<close>

theorem version_setter_rejects_decrease:
  "(v < OurRole_version r \<longrightarrow>
      OurRole_version_setter v r = (Inl (ValueError_VersionDecrease (OurRole_version r) v), r))
   \<and> (OurRole_version r < v \<longrightarrow>
        fst (OurRole_version_setter v r) = Inr ()
        \<and> OurRole_version (snd (OurRole_version_setter v r)) = v
        \<and> needsSigning (snd (OurRole_version_setter v r)))"
  by (simp add: role_defs)

theorem version_setter_rejects_decrease_witness:
  "(2::int) < OurRole_version (fromDict targetsRoleFac \<lparr>signed = \<lparr>version = 3, payload = TargetsP []\<rparr>, signatures = []\<rparr>)
   \<and> OurRole_version_setter 2 (fromDict targetsRoleFac \<lparr>signed = \<lparr>version = 3, payload = TargetsP []\<rparr>, signatures = []\<rparr>)
       = (Inl (ValueError_VersionDecrease 3 2), fromDict targetsRoleFac \<lparr>signed = \<lparr>version = 3, payload = TargetsP []\<rparr>, signatures = []\<rparr>)
   \<and> OurRole_version (fromDict targetsRoleFac \<lparr>signed = \<lparr>version = 3, payload = TargetsP []\<rparr>, signatures = []\<rparr>) < 7
   \<and> OurRole_version (snd (OurRole_version_setter 7 (fromDict targetsRoleFac \<lparr>signed = \<lparr>version = 3, payload = TargetsP []\<rparr>, signatures = []\<rparr>))) = 7
   \<and> needsSigning (snd (OurRole_version_setter 7 (fromDict targetsRoleFac \<lparr>signed = \<lparr>version = 3, payload = TargetsP []\<rparr>, signatures = []\<rparr>)))"
  using version_setter_rejects_decrease [of 2 "fromDict targetsRoleFac \<lparr>signed = \<lparr>version = 3, payload = TargetsP []\<rparr>, signatures = []\<rparr>"]
        version_setter_rejects_decrease [of 7 "fromDict targetsRoleFac \<lparr>signed = \<lparr>version = 3, payload = TargetsP []\<rparr>, signatures = []\<rparr>"]
  by (simp add: OurRole_version_def OurRole__version_def fromDict_def OurRole_init_def)

subsection \<open>Saving a role record\<close>

text \<open>
  C6. For a record that needs saving: while it is dirty, \<open>save\<close> raises the unsigned-data
  error and returns the directory and the record untouched; otherwise it writes the record
  under its file name and clears the needs-saving flag. Whenever \<open>save\<close> succeeds on such a
  record, the directory holds the record under that name and the flag is clear.
\<close>

theorem save_refuses_unsigned:
  assumes "needsSaving r"
  shows "(needsSigning r \<longrightarrow>
            save ext d c r = (Inl (RuntimeError_Unsigned (OurRole_name r)), d, r))
       \<and> (\<not> needsSigning r \<longrightarrow>
            save ext d c r =
              (Inr (),
               AList.update (getFileName ext (fac r) (I (OurRole_version r)) c) (Encoded (role r)) d,
               r\<lparr>needsSaving := False\<rparr>))
       \<and> (fst (save ext d c r) = Inr () \<longrightarrow>
            map_of (fst (snd (save ext d c r))) (getFileName ext (fac r) (I (OurRole_version r)) c)
              = Some (Encoded (role r))
            \<and> \<not> needsSaving (snd (snd (save ext d c r))))"
  using assms by (simp add: save_def save_raw_def needsSaving_setter_def update_conv')

theorem save_refuses_unsigned_witness:
  "needsSaving (OurRole__version_setter 4 (fromDict targetsRoleFac \<lparr>signed = \<lparr>version = 3, payload = TargetsP []\<rparr>, signatures = []\<rparr>))
   \<and> save ''json'' [(''a.txt'', Bytes ''hello'')] False
        (OurRole__version_setter 4 (fromDict targetsRoleFac \<lparr>signed = \<lparr>version = 3, payload = TargetsP []\<rparr>, signatures = []\<rparr>))
      = (Inl (RuntimeError_Unsigned ''targets''), [(''a.txt'', Bytes ''hello'')],
         OurRole__version_setter 4 (fromDict targetsRoleFac \<lparr>signed = \<lparr>version = 3, payload = TargetsP []\<rparr>, signatures = []\<rparr>))
   \<and> needsSaving (snd (OurRole_sign ''k'' (OurRole__version_setter 4 (fromDict targetsRoleFac \<lparr>signed = \<lparr>version = 3, payload = TargetsP []\<rparr>, signatures = []\<rparr>))))
   \<and> fst (snd (save ''json'' [(''a.txt'', Bytes ''hello'')] False
        (snd (OurRole_sign ''k'' (OurRole__version_setter 4 (fromDict targetsRoleFac \<lparr>signed = \<lparr>version = 3, payload = TargetsP []\<rparr>, signatures = []\<rparr>))))))
      = [(''a.txt'', Bytes ''hello''),
         (''targets.json'',
          Encoded \<lparr>signed = \<lparr>version = 5, payload = TargetsP []\<rparr>,
                   signatures = [(''k'', \<lparr>version = 5, payload = TargetsP []\<rparr>)]\<rparr>)]
   \<and> \<not> needsSaving (snd (snd (save ''json'' [(''a.txt'', Bytes ''hello'')] False
        (snd (OurRole_sign ''k'' (OurRole__version_setter 4 (fromDict targetsRoleFac \<lparr>signed = \<lparr>version = 3, payload = TargetsP []\<rparr>, signatures = []\<rparr>)))))))"
  using save_refuses_unsigned
          [of "OurRole__version_setter 4 (fromDict targetsRoleFac \<lparr>signed = \<lparr>version = 3, payload = TargetsP []\<rparr>, signatures = []\<rparr>)"
              "''json''" "[(''a.txt'', Bytes ''hello'')]" False]
        save_refuses_unsigned
          [of "snd (OurRole_sign ''k'' (OurRole__version_setter 4 (fromDict targetsRoleFac \<lparr>signed = \<lparr>version = 3, payload = TargetsP []\<rparr>, signatures = []\<rparr>)))"
              "''json''" "[(''a.txt'', Bytes ''hello'')]" False]
  by (simp add: role_defs save_def save_raw_def fromDict_def OurRole_init_def OurRole_name_def
        targetsRoleFac_def getFileName_def getSimpleFileName_def Let_def)

subsection \<open>The flags of a role record\<close>

lemma apply_op_invariant:
  "dirty_implies_unsaved r \<Longrightarrow> dirty_implies_unsaved (apply_op ext op r)"
  by (cases op) (auto simp: dirty_implies_unsaved_def role_defs save_def Let_def)

lemma apply_ops_invariant:
  "dirty_implies_unsaved r \<Longrightarrow> dirty_implies_unsaved (apply_ops ext ops r)"
  unfolding apply_ops_def
  by (induction ops arbitrary: r) (simp_all add: apply_op_invariant)

lemma createEmpty_flags:
  "createEmpty f kw = Inr r \<Longrightarrow> needsSigning r \<and> needsSaving r"
  by (auto simp: createEmpty_def role_defs OurRole_init_def split: sum.splits)

lemma fromDict_flags: "\<not> needsSigning (fromDict f dic) \<and> \<not> needsSaving (fromDict f dic)"
  by (simp add: fromDict_def OurRole_init_def)

text \<open>
  C10. A record that was created empty or loaded, and then went through any sequence of
  version settings, version bumps, signings, saves and assignments to the needs-signing
  flag, needs saving whenever it needs signing. So a dirty record always reaches the check in
  \<open>save\<close>: saving it raises the unsigned-data error and writes nothing.
\<close>

theorem dirty_record_needs_saving:
  assumes "createEmpty f kw = Inr r0 \<or> r0 = fromDict f dic"
  shows "dirty_implies_unsaved (apply_ops ext ops r0)
       \<and> (needsSigning (apply_ops ext ops r0) \<longrightarrow>
            save ext' d c (apply_ops ext ops r0)
              = (Inl (RuntimeError_Unsigned (OurRole_name (apply_ops ext ops r0))), d,
                 apply_ops ext ops r0))"
proof -
  have "dirty_implies_unsaved r0"
    using assms createEmpty_flags [of f kw r0] fromDict_flags [of f dic]
    by (auto simp: dirty_implies_unsaved_def)
  then have inv: "dirty_implies_unsaved (apply_ops ext ops r0)"
    by (rule apply_ops_invariant)
  then show ?thesis
    by (simp add: dirty_implies_unsaved_def save_def)
qed

theorem dirty_record_needs_saving_witness:
  "needsSigning (apply_ops ''json'' [Op_sign ''k'', Op_save [] False, Op_version_setter 9, Op_save [] False]
        (fromDict targetsRoleFac \<lparr>signed = \<lparr>version = 3, payload = TargetsP []\<rparr>, signatures = []\<rparr>))
   \<and> needsSaving (apply_ops ''json'' [Op_sign ''k'', Op_save [] False, Op_version_setter 9, Op_save [] False]
        (fromDict targetsRoleFac \<lparr>signed = \<lparr>version = 3, payload = TargetsP []\<rparr>, signatures = []\<rparr>))
   \<and> fst (save ''json'' [] False
        (apply_ops ''json'' [Op_sign ''k'', Op_save [] False, Op_version_setter 9, Op_save [] False]
          (fromDict targetsRoleFac \<lparr>signed = \<lparr>version = 3, payload = TargetsP []\<rparr>, signatures = []\<rparr>)))
       = Inl (RuntimeError_Unsigned ''targets'')"
  using dirty_record_needs_saving
          [of targetsRoleFac None "fromDict targetsRoleFac \<lparr>signed = \<lparr>version = 3, payload = TargetsP []\<rparr>, signatures = []\<rparr>" "\<lparr>signed = \<lparr>version = 3, payload = TargetsP []\<rparr>, signatures = []\<rparr>"
              "''json''" "[Op_sign ''k'', Op_save [] False, Op_version_setter 9, Op_save [] False]"
              "''json''" "[]" False]
  by (simp add: dirty_implies_unsaved_def apply_ops_def role_defs save_def fromDict_def
        OurRole_init_def OurRole_name_def targetsRoleFac_def Let_def)

subsection \<open>Naming and discovery\<close>

lemma isdigit_digit_char: "d < 10 \<Longrightarrow> isdigit (digit_char d)"
  by (simp add: isdigit_def digit_char_def)

lemma digit_val_digit_char: "d < 10 \<Longrightarrow> digit_val (digit_char d) = d"
  by (simp add: digit_val_def digit_char_def)

lemma str_nat_digits: "c \<in> set (str_nat n) \<Longrightarrow> isdigit c"
proof (induction n arbitrary: c rule: str_nat.induct)
  case (1 n)
  show ?case
  proof (cases "n < 10")
    case True
    with "1.prems" show ?thesis
      by (simp add: str_nat.simps [of n] isdigit_digit_char)
  next
    case False
    with "1.prems" "1.IH" show ?thesis
      by (auto simp: str_nat.simps [of n] isdigit_digit_char)
  qed
qed

lemma str_nat_nonempty: "str_nat n \<noteq> []"
  by (subst str_nat.simps) simp

lemma int_of_digits_snoc:
  "int_of_digits (ds @ [c]) = 10 * int_of_digits ds + int (digit_val c)"
  by (simp add: int_of_digits_def)

lemma int_of_digits_str_nat: "int_of_digits (str_nat n) = int n"
proof (induction n rule: str_nat.induct)
  case (1 n)
  show ?case
  proof (cases "n < 10")
    case True
    then show ?thesis
      by (simp add: str_nat.simps [of n] int_of_digits_def digit_val_digit_char)
  next
    case False
    with "1.IH" have "int_of_digits (str_nat (n div 10)) = int (n div 10)" by simp
    with False show ?thesis
      by (simp add: str_nat.simps [of n] int_of_digits_snoc digit_val_digit_char zdiv_int zmod_int)
  qed
qed

lemma replace_dot_append: "replace_dot (a @ b) = replace_dot a @ replace_dot b"
  by (simp add: replace_dot_def)

lemma replace_dot_group_digits: "replace_dot group_digits = group_digits"
  by (simp add: replace_dot_def group_digits_def backslash_def)

lemma replace_dot_Nil_iff: "replace_dot s = [] \<longleftrightarrow> s = []"
  by (cases s) (simp_all add: replace_dot_def)

lemma re_literals_replace_dot:
  "\<forall>c\<in>set s. literal_char c \<Longrightarrow> re_literals (replace_dot s) = Some s"
proof (induction s)
  case Nil
  then show ?case by (simp add: replace_dot_def)
next
  case (Cons c s)
  then have IH: "re_literals (replace_dot s) = Some s" by simp
  show ?case
  proof (cases "c = CHR ''.''")
    case True
    have "replace_dot (c # s) = backslash # CHR ''.'' # replace_dot s"
      using True by (simp add: replace_dot_def)
    then show ?thesis using IH True by simp
  next
    case False
    with Cons.prems have ns: "\<not> regex_special c" by (simp add: literal_char_def)
    then have nb: "c \<noteq> backslash" by (auto simp: regex_special_def)
    have eq: "replace_dot (c # s) = c # replace_dot s"
      using False by (simp add: replace_dot_def)
    show ?thesis
    proof (cases "replace_dot s")
      case Nil
      then have "s = []" by (simp add: replace_dot_Nil_iff)
      with eq Nil ns show ?thesis by simp
    next
      case (Cons d cs)
      with eq IH ns nb show ?thesis by simp
    qed
  qed
qed

lemma re_compile_consistent_pattern:
  assumes "\<forall>c\<in>set roleName. literal_char c" and "\<forall>c\<in>set ext. literal_char c"
  shows "re_compile (replace_dot (getConsistentFileName ext roleName (S group_digits)))
         = Inr (Pattern (replace_dot (getConsistentFileName ext roleName (S group_digits)))
                  (''.'' @ roleName @ ''.'' @ ext))"
proof -
  have lit: "\<forall>c\<in>set (''.'' @ roleName @ ''.'' @ ext). literal_char c"
    using assms by (auto simp: literal_char_def)
  have split: "replace_dot (getConsistentFileName ext roleName (S group_digits))
               = group_digits @ replace_dot (''.'' @ roleName @ ''.'' @ ext)"
    by (simp only: getConsistentFileName_def str.simps replace_dot_append replace_dot_group_digits)
  show ?thesis
    unfolding re_compile_def split
    using re_literals_replace_dot [OF lit] by simp
qed

lemma not_isdigit_dot: "\<not> isdigit CHR ''.''"
  by (simp add: isdigit_def)

lemma takeWhile_digits_dot:
  "\<forall>c\<in>set ds. isdigit c \<Longrightarrow> takeWhile isdigit (ds @ CHR ''.'' # rest) = ds"
proof -
  assume "\<forall>c\<in>set ds. isdigit c"
  then have "takeWhile isdigit (ds @ CHR ''.'' # rest) = ds @ takeWhile isdigit (CHR ''.'' # rest)"
    by (simp add: takeWhile_append2)
  also have "takeWhile isdigit (CHR ''.'' # rest) = []"
    using not_isdigit_dot by simp
  finally show ?thesis by simp
qed

lemma re_match_numeral:
  assumes "\<forall>c\<in>set ds. isdigit c" and "ds \<noteq> []"
  shows "re_match (Pattern p (CHR ''.'' # rest)) (ds @ CHR ''.'' # rest) = Some ds"
proof -
  have n: "length (takeWhile isdigit (ds @ CHR ''.'' # rest)) = length ds"
    by (simp only: takeWhile_digits_dot [OF assms(1)])
  from assms(2) obtain k where k: "length ds = Suc k" by (cases ds) auto
  have "rev [1..<Suc (length ds)] = length ds # rev [1..<length ds]"
    using k by simp
  then show ?thesis
    unfolding re_match_def n Let_def by simp
qed



lemma star_free:
  assumes "\<forall>c\<in>set nm. literal_char c"
  shows "CHR ''*'' \<notin> set nm"
proof
  assume "CHR ''*'' \<in> set nm"
  with assms have "literal_char CHR ''*''" by blast
  then show False by (simp add: literal_char_def regex_special_def)
qed


lemma discover_singleton:
  assumes c: "re_compile (replace_dot (getConsistentFileName ext (name roleFactory) (S group_digits)))
              = Inr re"
      and m: "re_match re fn = Some g"
      and star: "CHR ''*'' \<notin> set (name roleFactory)"
  shows "discoverConsistentVersionsFromFileNames ext roleFactory [fn] = Inr [(int_of_digits g, fn)]"
  unfolding discoverConsistentVersionsFromFileNames_def
  by (simp only: star if_False c sum.case)
     (simp add: List.map_filter_simps m)


lemma consistent_name_numeral:
  "0 \<le> v \<Longrightarrow> getConsistentFileName ext nm (I v) = str_nat (nat v) @ CHR ''.'' # (nm @ ''.'' @ ext)"
  by (simp add: getConsistentFileName_def)

lemma re_match_consistent_name:
  assumes "0 \<le> v"
  shows "re_match (Pattern p (''.'' @ nm @ ''.'' @ ext)) (getConsistentFileName ext nm (I v))
         = Some (str_nat (nat v))"
proof -
  have digits: "\<forall>c\<in>set (str_nat (nat v)). isdigit c"
    using str_nat_digits by blast
  have "re_match (Pattern p (CHR ''.'' # (nm @ ''.'' @ ext)))
          (str_nat (nat v) @ CHR ''.'' # (nm @ ''.'' @ ext)) = Some (str_nat (nat v))"
    by (rule re_match_numeral [OF digits str_nat_nonempty])
  then show ?thesis
    by (simp only: consistent_name_numeral [OF assms] append_Cons append_Nil)
qed

text \<open>
  C8, as the code has it. For a version that is not negative, and a role name and an
  extension made of characters that the pattern matches literally, consistent-mode discovery
  on the single file name that the consistent naming function produces returns exactly that
  version with that file name.
\<close>

theorem discover_inverts_consistent_name:
  assumes "0 \<le> v"
      and "\<forall>c\<in>set (name roleFactory). literal_char c"
      and "\<forall>c\<in>set ext. literal_char c"
  shows "discoverConsistentVersionsFromFileNames ext roleFactory
           [getConsistentFileName ext (name roleFactory) (I v)]
         = Inr [(v, getConsistentFileName ext (name roleFactory) (I v))]"
proof -
  have "discoverConsistentVersionsFromFileNames ext roleFactory
          [getConsistentFileName ext (name roleFactory) (I v)]
        = Inr [(int_of_digits (str_nat (nat v)), getConsistentFileName ext (name roleFactory) (I v))]"
    by (rule discover_singleton
          [OF re_compile_consistent_pattern [OF assms(2) assms(3)]
              re_match_consistent_name [OF assms(1)]
              star_free [OF assms(2)]])
  then show ?thesis
    using assms(1) by (simp only: int_of_digits_str_nat int_nat_eq if_True)
qed


theorem discover_inverts_consistent_name_witness:
  "(0::int) \<le> 12
   \<and> discoverConsistentVersionsFromFileNames ''json'' targetsRoleFac
        [getConsistentFileName ''json'' (name targetsRoleFac) (I 12)]
      = Inr [(12, getConsistentFileName ''json'' (name targetsRoleFac) (I 12))]"
proof -
  have a: "(0::int) \<le> 12" by simp
  have b: "\<forall>c\<in>set (name targetsRoleFac). literal_char c"
    by (simp add: targetsRoleFac_def literal_char_def regex_special_def backslash_def)
  have c: "\<forall>c\<in>set ''json''. literal_char c"
    by (simp add: literal_char_def regex_special_def backslash_def)
  show ?thesis
    using a discover_inverts_consistent_name [OF a b c] by blast
qed

text \<open>
  C8 as stated, for every triple, fails: the numeral of a negative version starts with a
  minus sign, which \<open>(\d+)\<close> does not match at the start of the name, so discovery finds
  nothing and raises; and a role name with an asterisk is refused by the assertion.
\<close>

theorem discover_fails_on_some_triples:
  "discoverConsistentVersionsFromFileNames ''json'' targetsRoleFac
     [getConsistentFileName ''json'' (name targetsRoleFac) (I (- 1))]
   = Inl (FileNotFoundError (replace_dot (getConsistentFileName ''json'' ''targets'' (S group_digits))))
   \<and> discoverConsistentVersionsFromFileNames ''json'' (RoleFactory ''a*'' Targets 0 [] True)
        [getConsistentFileName ''json'' ''a*'' (I 1)]
     = Inl AssertionError"
  by code_simp

subsection \<open>Reconciling a directory without metadata files\<close>

lemma ROLES_MODEL_eq:
  "ROLES_MODEL = [(''targets'', targetsRoleFac), (''snapshot'', snapshotRoleFac), (''timestamp'', timestampRoleFac)]"
  by (simp add: ROLES_MODEL_def RolesModel_def targetsRoleFac_def snapshotRoleFac_def timestampRoleFac_def)

lemma fac_simps:
  "name targetsRoleFac = ''targets''" "ctor targetsRoleFac = Targets" "hasVersion targetsRoleFac"
  "name snapshotRoleFac = ''snapshot''" "ctor snapshotRoleFac = Snapshot" "hasVersion snapshotRoleFac"
  "name timestampRoleFac = ''timestamp''" "ctor timestampRoleFac = Timestamp" "\<not> hasVersion timestampRoleFac"
  "name rootRoleFac = ''root''" "ctor rootRoleFac = Root" "\<not> hasVersion rootRoleFac"
  by (simp_all add: targetsRoleFac_def snapshotRoleFac_def timestampRoleFac_def rootRoleFac_def)

lemma createEmpty_timestamp:
  "createEmpty timestampRoleFac None =
     Inr \<lparr>fac = timestampRoleFac,
          role = \<lparr>signed = \<lparr>version = 0, payload = TimestampP (MetaFile 1)\<rparr>, signatures = []\<rparr>,
          needsSigning = True, needsSaving = True\<rparr>"
  by (simp add: createEmpty_def fac_simps role_defs OurRole_init_def)

lemma createEmpty_snapshot:
  "createEmpty snapshotRoleFac None =
     Inr \<lparr>fac = snapshotRoleFac,
          role = \<lparr>signed = \<lparr>version = 0, payload = SnapshotP [(''targets.json'', MetaFile 1)]\<rparr>,
                  signatures = []\<rparr>,
          needsSigning = True, needsSaving = True\<rparr>"
  by (simp add: createEmpty_def fac_simps role_defs OurRole_init_def)

lemma createEmpty_targets:
  "createEmpty targetsRoleFac None =
     Inr \<lparr>fac = targetsRoleFac,
          role = \<lparr>signed = \<lparr>version = 0, payload = TargetsP []\<rparr>, signatures = []\<rparr>,
          needsSigning = True, needsSaving = True\<rparr>"
  by (simp add: createEmpty_def fac_simps role_defs OurRole_init_def)

lemmas createEmpty_simps = createEmpty_timestamp createEmpty_snapshot createEmpty_targets

lemma loadOrCreate_absent:
  assumes "repoRoot = None \<or> (\<exists>d. repoRoot = Some d \<and> map_of d (getSimpleFileName ext (name f)) = None)"
      and "CHR ''*'' \<notin> set (name f)"
  shows "loadOrCreate ext f repoRoot False versionToLoad kwargs
         = map_sum id (\<lambda>r. (r, False)) (createEmpty f kwargs)"
  using assms
  by (auto simp: loadOrCreate_def loadFromRepo_def discoverBlindFromRepo_def discoverSimple_def
        loadFromFile_def getFileName_def split: option.splits)

lemma loadTimestampAndSnapshot_absent:
  assumes "repoRoot = None \<or> (\<exists>d. repoRoot = Some d \<and> map_of d ''timestamp.json'' = None
                                  \<and> map_of d ''snapshot.json'' = None)"
  shows "loadTimestampAndSnapshot ROLES_MODEL fileExtension repoRoot =
     Inr ([(''timestamp'',
            \<lparr>fac = timestampRoleFac,
             role = \<lparr>signed = \<lparr>version = 0, payload = TimestampP (MetaFile 1)\<rparr>, signatures = []\<rparr>,
             needsSigning = True, needsSaving = True\<rparr>),
           (''snapshot'',
            \<lparr>fac = snapshotRoleFac,
             role = \<lparr>signed = \<lparr>version = 0, payload = SnapshotP []\<rparr>, signatures = []\<rparr>,
             needsSigning = True, needsSaving = True\<rparr>)], [])"
proof -
  have ts: "loadOrCreate fileExtension timestampRoleFac repoRoot False None None
            = map_sum id (\<lambda>r. (r, False)) (createEmpty timestampRoleFac None)"
    by (rule loadOrCreate_absent) (use assms in \<open>auto simp: fileExtension_def getSimpleFileName_def fac_simps\<close>)
  have sn: "loadOrCreate fileExtension snapshotRoleFac repoRoot False (Some 1) None
            = map_sum id (\<lambda>r. (r, False)) (createEmpty snapshotRoleFac None)"
    by (rule loadOrCreate_absent) (use assms in \<open>auto simp: fileExtension_def getSimpleFileName_def fac_simps\<close>)
  show ?thesis
    by (simp add: loadTimestampAndSnapshot_def ROLES_MODEL_eq Strategy_loadOrCreate_def
          isRoleConsistent_def ts sn createEmpty_simps)
qed


lemma rolesToLoad_of_ROLES_MODEL:
  "rolesToLoad_of ROLES_MODEL [(''timestamp'', ts), (''snapshot'', sn)] = [''targets'']"
  by (simp add: rolesToLoad_of_def ROLES_MODEL_eq)

lemma loadRole_no_candidate_simple:
  assumes "CHR ''*'' \<notin> set (name f)" and "\<not> isRoleConsistent f c"
      and "getSimpleFileName ext (name f) \<notin> fst ` set smf"
  shows "loadRole ext repoRoot c smf f = createEmpty f None"
  using assms
  by (simp add: loadRole_def discoverVersionsFromFileNames_def discoverSipleVersionsFromFileNames_def)

lemma discoverConsistent_no_candidate:
  assumes "\<forall>c\<in>set (name f). literal_char c" and "\<forall>c\<in>set ext. literal_char c"
      and "\<forall>fn\<in>set fileNames.
             re_match (Pattern (replace_dot (getConsistentFileName ext (name f) (S group_digits)))
                        (''.'' @ name f @ ''.'' @ ext)) fn = None"
  shows "discoverConsistentVersionsFromFileNames ext f fileNames
         = Inl (FileNotFoundError (replace_dot (getConsistentFileName ext (name f) (S group_digits))))"
proof -
  have mf: "List.map_filter
              (\<lambda>fn. map_option (\<lambda>g. (int_of_digits g, fn))
                 (re_match (Pattern (replace_dot (getConsistentFileName ext (name f) (S group_digits)))
                        (''.'' @ name f @ ''.'' @ ext)) fn)) fileNames = []"
    using assms(3) by (induction fileNames) (simp_all add: List.map_filter_simps)
  show ?thesis
    unfolding discoverConsistentVersionsFromFileNames_def
    by (simp only: star_free [OF assms(1)] if_False
          re_compile_consistent_pattern [OF assms(1) assms(2)] sum.case mf)
       simp
qed

lemma loadRole_no_candidate_consistent:
  assumes "\<forall>c\<in>set (name f). literal_char c" and "\<forall>c\<in>set ext. literal_char c"
      and "isRoleConsistent f c"
      and "\<forall>fn\<in>fst ` set smf.
             re_match (Pattern (replace_dot (getConsistentFileName ext (name f) (S group_digits)))
                        (''.'' @ name f @ ''.'' @ ext)) fn = None"
  shows "loadRole ext repoRoot c smf f
         = Inl (FileNotFoundError (replace_dot (getConsistentFileName ext (name f) (S group_digits))))"
  using discoverConsistent_no_candidate [OF assms(1) assms(2), of "map fst smf"] assms(3,4)
        star_free [OF assms(1)]
  by (simp add: loadRole_def discoverVersionsFromFileNames_def)

lemma literal_targets: "\<forall>c\<in>set (name targetsRoleFac). literal_char c"
  by (simp add: fac_simps literal_char_def regex_special_def backslash_def)

lemma literal_json: "\<forall>c\<in>set fileExtension. literal_char c"
  by (simp add: fileExtension_def literal_char_def regex_special_def backslash_def)

lemma map_of_ROLES_MODEL:
  "map_of ROLES_MODEL ''targets'' = Some targetsRoleFac"
  "map_of ROLES_MODEL ''snapshot'' = Some snapshotRoleFac"
  "map_of ROLES_MODEL ''timestamp'' = Some timestampRoleFac"
  by (simp_all add: ROLES_MODEL_eq)

lemma loadOrCreateRoles_fresh_simple:
  assumes "repoRoot = None \<or> (\<exists>d. repoRoot = Some d \<and> map_of d ''timestamp.json'' = None
                                  \<and> map_of d ''snapshot.json'' = None)"
  shows "loadOrCreateRoles ROLES_MODEL fileExtension repoRoot False =
     Inr [(''timestamp'',
            \<lparr>fac = timestampRoleFac,
             role = \<lparr>signed = \<lparr>version = 0, payload = TimestampP (MetaFile 1)\<rparr>, signatures = []\<rparr>,
             needsSigning = True, needsSaving = True\<rparr>),
           (''snapshot'',
            \<lparr>fac = snapshotRoleFac,
             role = \<lparr>signed = \<lparr>version = 0, payload = SnapshotP []\<rparr>, signatures = []\<rparr>,
             needsSigning = True, needsSaving = True\<rparr>),
           (''targets'',
            \<lparr>fac = targetsRoleFac,
             role = \<lparr>signed = \<lparr>version = 0, payload = TargetsP []\<rparr>, signatures = []\<rparr>,
             needsSigning = True, needsSaving = True\<rparr>)]"
proof -
  have tg: "loadRole fileExtension repoRoot False [] targetsRoleFac = createEmpty targetsRoleFac None"
    by (rule loadRole_no_candidate_simple) (simp_all add: fac_simps isRoleConsistent_def)
  show ?thesis
    unfolding loadOrCreateRoles_def loadTimestampAndSnapshot_absent [OF assms]
    by (simp add: rolesToLoad_of_ROLES_MODEL map_of_ROLES_MODEL tg createEmpty_simps fac_simps)
qed

text \<open>
  C4, as the code has it. In simple mode, reconciling no directory, or a directory that has
  neither \<open>timestamp.json\<close> nor \<open>snapshot.json\<close>, yields exactly three role records, for
  timestamp, snapshot and targets in this order (the root record belongs to the seed and is
  not produced by reconciliation). Each is freshly created: version 0, dirty and in need of
  saving. The metadata-file mapping of the snapshot is empty.
\<close>

theorem reconcile_empty_simple:
  assumes "repoRoot = None \<or> (\<exists>d. repoRoot = Some d \<and> map_of d ''timestamp.json'' = None
                                  \<and> map_of d ''snapshot.json'' = None)"
  shows "loadOrCreateRoles ROLES_MODEL fileExtension repoRoot False =
     Inr [(''timestamp'',
            \<lparr>fac = timestampRoleFac,
             role = \<lparr>signed = \<lparr>version = 0, payload = TimestampP (MetaFile 1)\<rparr>, signatures = []\<rparr>,
             needsSigning = True, needsSaving = True\<rparr>),
           (''snapshot'',
            \<lparr>fac = snapshotRoleFac,
             role = \<lparr>signed = \<lparr>version = 0, payload = SnapshotP []\<rparr>, signatures = []\<rparr>,
             needsSigning = True, needsSaving = True\<rparr>),
           (''targets'',
            \<lparr>fac = targetsRoleFac,
             role = \<lparr>signed = \<lparr>version = 0, payload = TargetsP []\<rparr>, signatures = []\<rparr>,
             needsSigning = True, needsSaving = True\<rparr>)]"
  by (rule loadOrCreateRoles_fresh_simple [OF assms])

theorem reconcile_empty_simple_witness:
  "loadOrCreateRoles ROLES_MODEL fileExtension (Some [(''a.txt'', Bytes ''hello'')]) False =
     Inr [(''timestamp'',
            \<lparr>fac = timestampRoleFac,
             role = \<lparr>signed = \<lparr>version = 0, payload = TimestampP (MetaFile 1)\<rparr>, signatures = []\<rparr>,
             needsSigning = True, needsSaving = True\<rparr>),
           (''snapshot'',
            \<lparr>fac = snapshotRoleFac,
             role = \<lparr>signed = \<lparr>version = 0, payload = SnapshotP []\<rparr>, signatures = []\<rparr>,
             needsSigning = True, needsSaving = True\<rparr>),
           (''targets'',
            \<lparr>fac = targetsRoleFac,
             role = \<lparr>signed = \<lparr>version = 0, payload = TargetsP []\<rparr>, signatures = []\<rparr>,
             needsSigning = True, needsSaving = True\<rparr>)]"
  using reconcile_empty_simple [of "Some [(''a.txt'', Bytes ''hello'')]"] by simp

text \<open>
  C4 as stated fails on the number of records: reconciling the empty directory yields
  three records, not four.
\<close>

theorem reconcile_empty_three_records:
  "map_sum id (map fst) (loadOrCreateRoles ROLES_MODEL fileExtension (Some []) False)
     = Inr [''timestamp'', ''snapshot'', ''targets'']
   \<and> map_sum id length (loadOrCreateRoles ROLES_MODEL fileExtension (Some []) False) \<noteq> Inr 4"
  by code_simp

text \<open>
  C5, where the code departs from it. In consistent mode no candidate for the targets role
  does not lead to a fresh role: discovery raises \<open>FileNotFoundError\<close>, nothing in
  \<open>loadOrCreateRoles\<close> catches it, and the reconciliation of the whole role set fails, already
  for no directory and for a directory without metadata files. (In simple mode the role is
  created fresh, see \<open>loadRole_no_candidate_simple\<close>.)
\<close>

theorem reconcile_empty_consistent_raises:
  assumes "repoRoot = None \<or> (\<exists>d. repoRoot = Some d \<and> map_of d ''timestamp.json'' = None
                                  \<and> map_of d ''snapshot.json'' = None)"
  shows "loadOrCreateRoles ROLES_MODEL fileExtension repoRoot True =
     Inl (FileNotFoundError
            (replace_dot (getConsistentFileName fileExtension ''targets'' (S group_digits))))"
proof -
  have tg: "loadRole fileExtension repoRoot True [] targetsRoleFac
            = Inl (FileNotFoundError
                (replace_dot (getConsistentFileName fileExtension (name targetsRoleFac) (S group_digits))))"
    by (rule loadRole_no_candidate_consistent [OF literal_targets literal_json])
       (simp_all add: fac_simps isRoleConsistent_def)
  show ?thesis
    unfolding loadOrCreateRoles_def loadTimestampAndSnapshot_absent [OF assms]
    by (simp add: rolesToLoad_of_ROLES_MODEL map_of_ROLES_MODEL tg fac_simps)
qed

theorem reconcile_empty_consistent_raises_witness:
  "loadOrCreateRoles ROLES_MODEL fileExtension None True =
     Inl (FileNotFoundError
            (replace_dot (getConsistentFileName fileExtension ''targets'' (S group_digits))))
   \<and> loadOrCreateRoles ROLES_MODEL fileExtension (Some []) True =
     Inl (FileNotFoundError
            (replace_dot (getConsistentFileName fileExtension ''targets'' (S group_digits))))"
  using reconcile_empty_consistent_raises [of None]
        reconcile_empty_consistent_raises [of "Some []"] by simp

subsection \<open>Version agreement during reconciliation\<close>

lemma loadRole_single_candidate:
  assumes "discoverVersionsFromFileNames ext f (map fst smf) (isRoleConsistent f c)
           = Inr [(fnv, fileName)]"
      and "map_of smf fileName = Some (MetaFile sv)"
  shows "loadRole ext repoRoot c smf f =
     (if fnv \<noteq> None \<and> sv \<noteq> the fnv
      then Inl (ValueError_VersionFromFileName fileName (the fnv) sv)
      else (case repoRoot of
              None \<Rightarrow> Inl TypeError
            | Some d \<Rightarrow> loadFromFile f d fileName (Some sv)))"
  by (simp add: loadRole_def assms)

lemma loadFromFile_encoded:
  assumes "map_of d fileName = Some (Encoded m)"
  shows "loadFromFile f d fileName (Some sv) =
     (if version (signed m) \<noteq> sv
      then Inl (RuntimeError_VersionWithinFile (name f) sv (version (signed m)))
      else Inr (fromDict f m))"
  by (simp add: loadFromFile_def loadFromData_def deserializeData_def assms fromDict_def
        OurRole_init_def OurRole_version_def OurRole__version_def)

lemma loadRoles_loop_first_error:
  assumes "rn \<in> set rns"
      and "map_of model rn = Some f"
      and "loadRole ext repoRoot c smf f = Inl e"
      and "\<forall>x\<in>set rns. map_of model x \<noteq> None"
  shows "\<exists>e'. loadRoles_loop model ext repoRoot c smf rns st = Inl e'
              \<and> (e' = e
                  \<or> (\<exists>rn' f'. rn' \<in> set (takeWhile (\<lambda>x. x \<noteq> rn) rns)
                        \<and> map_of model rn' = Some f'
                        \<and> loadRole ext repoRoot c smf f' = Inl e'))"
  using assms
proof (induction rns arbitrary: st)
  case Nil
  then show ?case by simp
next
  case (Cons x xs)
  obtain rolesDict rolesToLoad where st: "st = (rolesDict, rolesToLoad)" by (cases st)
  from Cons.prems(4) obtain fx where fx: "map_of model x = Some fx" by auto
  show ?case
  proof (cases "x = rn")
    case True
    with fx Cons.prems(2) have "fx = f" by simp
    with fx Cons.prems(3) show ?thesis by (simp add: st)
  next
    case False
    with Cons.prems(1) have rn: "rn \<in> set xs" by simp
    show ?thesis
    proof (cases "loadRole ext repoRoot c smf fx")
      case (Inl e0)
      with fx False show ?thesis by (auto simp: st)
    next
      case (Inr r)
      from Cons.IH [OF rn Cons.prems(2) Cons.prems(3), of "(AList.update (name fx) r rolesDict, removeAll (name fx) rolesToLoad)"]
           Cons.prems(4)
      obtain e' where e': "loadRoles_loop model ext repoRoot c smf xs
                 (AList.update (name fx) r rolesDict, removeAll (name fx) rolesToLoad) = Inl e'"
          "e' = e \<or> (\<exists>rn' f'. rn' \<in> set (takeWhile (\<lambda>x. x \<noteq> rn) xs)
                        \<and> map_of model rn' = Some f'
                        \<and> loadRole ext repoRoot c smf f' = Inl e')"
        by auto
      with fx Inr False show ?thesis by (auto simp: st)
    qed
  qed
qed

lemma rolesToLoad_of_in_model:
  "x \<in> set (rolesToLoad_of model rolesDict) \<Longrightarrow> map_of model x \<noteq> None"
  by (auto simp: rolesToLoad_of_def map_of_eq_None_iff)

text \<open>
  C1. Reconciliation of a directory has loaded timestamp and snapshot; \<open>rn\<close> is one of the
  remaining roles, with exactly one candidate \<open>fileName\<close>, which encodes the version \<open>fnv\<close>
  (\<open>None\<close> in simple mode), is recorded at version \<open>sv\<close> in the snapshot's metadata-file
  mapping, and holds a payload \<open>m\<close>. If the three versions do not all agree, reconciliation
  aborts: it raises the version-disagreement error of this role (the file-name error when the
  file name disagrees with the snapshot, the within-file error otherwise), unless a role
  sorted before \<open>rn\<close> has already raised. Conversely, whenever reconciliation succeeds the
  three versions agree and the role is the one loaded from that file.
\<close>

theorem reconcile_version_disagreement_aborts:
  assumes head: "loadTimestampAndSnapshot model ext (Some d) = Inr (rolesDict, smf)"
      and rn: "rn \<in> set (rolesToLoad_of model rolesDict)"
      and f: "map_of model rn = Some f"
      and cand: "discoverVersionsFromFileNames ext f (map fst smf) (isRoleConsistent f c)
                 = Inr [(fnv, fileName)]"
      and recorded: "map_of smf fileName = Some (MetaFile sv)"
      and content: "map_of d fileName = Some (Encoded m)"
  shows "(\<not> ((fnv = None \<or> fnv = Some sv) \<and> version (signed m) = sv) \<longrightarrow>
            (\<exists>e. loadOrCreateRoles model ext (Some d) c = Inl e
               \<and> (e = (if fnv \<noteq> None \<and> sv \<noteq> the fnv
                        then ValueError_VersionFromFileName fileName (the fnv) sv
                        else RuntimeError_VersionWithinFile (name f) sv (version (signed m)))
                    \<or> (\<exists>rn' f'. rn' \<in> set (takeWhile (\<lambda>x. x \<noteq> rn) (rolesToLoad_of model rolesDict))
                          \<and> map_of model rn' = Some f'
                          \<and> loadRole ext (Some d) c smf f' = Inl e))))
       \<and> (\<forall>roles. loadOrCreateRoles model ext (Some d) c = Inr roles \<longrightarrow>
             (fnv = None \<or> fnv = Some sv) \<and> version (signed m) = sv
             \<and> loadRole ext (Some d) c smf f = Inr (fromDict f m))"
proof -
  let ?err = "if fnv \<noteq> None \<and> sv \<noteq> the fnv
              then ValueError_VersionFromFileName fileName (the fnv) sv
              else RuntimeError_VersionWithinFile (name f) sv (version (signed m))"
  have step: "loadRole ext (Some d) c smf f =
                (if (fnv = None \<or> fnv = Some sv) \<and> version (signed m) = sv
                 then Inr (fromDict f m) else Inl ?err)"
    unfolding loadRole_single_candidate [OF cand recorded]
    by (cases fnv) (auto simp: loadFromFile_encoded [OF content])
  have inmodel: "\<forall>x\<in>set (rolesToLoad_of model rolesDict). map_of model x \<noteq> None"
    using rolesToLoad_of_in_model by blast
  have abort: "\<exists>e. loadOrCreateRoles model ext (Some d) c = Inl e
               \<and> (e = ?err
                    \<or> (\<exists>rn' f'. rn' \<in> set (takeWhile (\<lambda>x. x \<noteq> rn) (rolesToLoad_of model rolesDict))
                          \<and> map_of model rn' = Some f'
                          \<and> loadRole ext (Some d) c smf f' = Inl e))"
    if dis: "\<not> ((fnv = None \<or> fnv = Some sv) \<and> version (signed m) = sv)"
  proof -
    from step dis have "loadRole ext (Some d) c smf f = Inl ?err" by simp
    from loadRoles_loop_first_error [OF rn f this inmodel,
           of "(rolesDict, rolesToLoad_of model rolesDict)"]
    show ?thesis
      unfolding loadOrCreateRoles_def head by (auto simp: Let_def)
  qed
  have ok: "(fnv = None \<or> fnv = Some sv) \<and> version (signed m) = sv
             \<and> loadRole ext (Some d) c smf f = Inr (fromDict f m)"
    if "loadOrCreateRoles model ext (Some d) c = Inr roles" for roles
  proof (rule ccontr)
    assume "\<not> ?thesis"
    with step have "\<not> ((fnv = None \<or> fnv = Some sv) \<and> version (signed m) = sv)"
      by (auto split: if_splits)
    from abort [OF this] that show False by auto
  qed
  from abort ok show ?thesis by blast
qed

theorem reconcile_version_disagreement_aborts_witness:
  "loadOrCreateRoles ROLES_MODEL fileExtension
     (Some [(''timestamp.json'',
             Encoded \<lparr>signed = \<lparr>version = 1, payload = TimestampP (MetaFile 1)\<rparr>, signatures = []\<rparr>),
            (''snapshot.json'',
             Encoded \<lparr>signed = \<lparr>version = 1, payload = SnapshotP [(''2.targets.json'', MetaFile 3)]\<rparr>,
                      signatures = []\<rparr>),
            (''2.targets.json'',
             Encoded \<lparr>signed = \<lparr>version = 2, payload = TargetsP []\<rparr>, signatures = []\<rparr>)])
     True
   = Inl (ValueError_VersionFromFileName ''2.targets.json'' 2 3)
   \<and> loadOrCreateRoles ROLES_MODEL fileExtension
     (Some [(''timestamp.json'',
             Encoded \<lparr>signed = \<lparr>version = 1, payload = TimestampP (MetaFile 1)\<rparr>, signatures = []\<rparr>),
            (''snapshot.json'',
             Encoded \<lparr>signed = \<lparr>version = 1, payload = SnapshotP [(''targets.json'', MetaFile 3)]\<rparr>,
                      signatures = []\<rparr>),
            (''targets.json'',
             Encoded \<lparr>signed = \<lparr>version = 2, payload = TargetsP []\<rparr>, signatures = []\<rparr>)])
     False
   = Inl (RuntimeError_VersionWithinFile ''targets'' 3 2)"
proof -
  let ?ts = "\<lparr>signed = \<lparr>version = 1, payload = TimestampP (MetaFile 1)\<rparr>, signatures = []\<rparr>"
  let ?sn = "\<lparr>signed = \<lparr>version = 1, payload = SnapshotP [(''2.targets.json'', MetaFile 3)]\<rparr>,
             signatures = []\<rparr>"
  let ?tg = "\<lparr>signed = \<lparr>version = 2, payload = TargetsP []\<rparr>, signatures = []\<rparr>"
  let ?d = "[(''timestamp.json'', Encoded ?ts), (''snapshot.json'', Encoded ?sn),
             (''2.targets.json'', Encoded ?tg)]"
  let ?rd = "[(''timestamp'', fromDict timestampRoleFac ?ts), (''snapshot'', fromDict snapshotRoleFac ?sn)]"
  have h1: "loadTimestampAndSnapshot ROLES_MODEL fileExtension (Some ?d)
            = Inr (?rd, [(''2.targets.json'', MetaFile 3)])"
    by code_simp
  have h2: "''targets'' \<in> set (rolesToLoad_of ROLES_MODEL ?rd)"
    by (simp add: rolesToLoad_of_ROLES_MODEL)
  have h3: "map_of ROLES_MODEL ''targets'' = Some targetsRoleFac"
    by (simp add: map_of_ROLES_MODEL)
  have h4: "discoverVersionsFromFileNames fileExtension targetsRoleFac
              (map fst [(''2.targets.json'', MetaFile 3)]) (isRoleConsistent targetsRoleFac True)
            = Inr [(Some 2, ''2.targets.json'')]"
    by code_simp
  have h5: "map_of [(''2.targets.json'', MetaFile 3)] ''2.targets.json'' = Some (MetaFile 3)"
    by simp
  have h6: "map_of ?d ''2.targets.json'' = Some (Encoded ?tg)"
    by simp
  let ?sn' = "\<lparr>signed = \<lparr>version = 1, payload = SnapshotP [(''targets.json'', MetaFile 3)]\<rparr>,
              signatures = []\<rparr>"
  let ?d' = "[(''timestamp.json'', Encoded ?ts), (''snapshot.json'', Encoded ?sn'),
              (''targets.json'', Encoded ?tg)]"
  let ?rd' = "[(''timestamp'', fromDict timestampRoleFac ?ts), (''snapshot'', fromDict snapshotRoleFac ?sn')]"
  have g1: "loadTimestampAndSnapshot ROLES_MODEL fileExtension (Some ?d')
            = Inr (?rd', [(''targets.json'', MetaFile 3)])"
    by code_simp
  have g2: "''targets'' \<in> set (rolesToLoad_of ROLES_MODEL ?rd')"
    by (simp add: rolesToLoad_of_ROLES_MODEL)
  have g4: "discoverVersionsFromFileNames fileExtension targetsRoleFac
              (map fst [(''targets.json'', MetaFile 3)]) (isRoleConsistent targetsRoleFac False)
            = Inr [(None, ''targets.json'')]"
    by code_simp
  have g5: "map_of [(''targets.json'', MetaFile 3)] ''targets.json'' = Some (MetaFile 3)"
    by simp
  have g6: "map_of ?d' ''targets.json'' = Some (Encoded ?tg)"
    by simp
  from reconcile_version_disagreement_aborts [OF h1 h2 h3 h4 h5 h6]
       reconcile_version_disagreement_aborts [OF g1 g2 h3 g4 g5 g6]
  show ?thesis
    by (simp add: rolesToLoad_of_ROLES_MODEL fac_simps)
qed

subsection \<open>Binding the metadata into the snapshot\<close>

lemma meta_set_payload:
  "meta (signed (role (set_payload (SnapshotP m) r))) = Inr m"
  by (simp add: set_payload_def)

lemma ourRole_set_ourRole:
  "ourRole (set_ourRole k r b) k' = (if k' = k then Inr r else ourRole b k')"
  by (simp add: ourRole_def set_ourRole_def update_conv')

lemma seed_set_ourRole: "seed (set_ourRole k r b) = seed b"
  by (simp add: set_ourRole_def)

lemma bindMetadata_loop_result:
  assumes "ourRole b ''snapshot'' = Inr sn"
      and "meta (signed (role sn)) = Inr m0"
      and "isConsistent (seed b) = Inr c"
  shows "\<exists>b' sn'. bindMetadata_loop roles b = Inr b'
           \<and> ourRole b' ''snapshot'' = Inr sn'
           \<and> meta (signed (role sn')) = Inr (fold (\<lambda>(k, v). AList.update k v) (snapshot_entries c roles) m0)"
  using assms
proof (induction roles arbitrary: b sn m0)
  case Nil
  then show ?case by (simp add: snapshot_entries_def)
next
  case (Cons oR rest)
  show ?case
  proof (cases "EXCLUDED_FROM_SNAPSHOT oR")
    case True
    with Cons.IH [OF Cons.prems] show ?thesis
      by (simp add: snapshot_entries_def)
  next
    case False
    let ?fn = "fileNameForRole fileExtension (fac oR) (I (OurRole_version oR)) c"
    let ?v = "MetaFile (version (signed (role oR)))"
    let ?sn1 = "set_payload (SnapshotP (AList.update ?fn ?v m0)) sn"
    let ?b1 = "set_ourRole ''snapshot'' ?sn1 b"
    have a1: "ourRole ?b1 ''snapshot'' = Inr ?sn1" by (simp add: ourRole_set_ourRole)
    have a2: "meta (signed (role ?sn1)) = Inr (AList.update ?fn ?v m0)" by (rule meta_set_payload)
    have a3: "isConsistent (seed ?b1) = Inr c" using Cons.prems(3) by (simp add: seed_set_ourRole)
    from Cons.IH [OF a1 a2 a3] False Cons.prems show ?thesis
      by (simp add: snapshot_entries_def)
  qed
qed

lemma OurRole_sign_payload: "payload (signed (role (snd (OurRole_sign key r)))) = payload (signed (role r))"
  by (simp add: role_defs Let_def)

lemma mark_and_sign_payload:
  assumes "mark_and_sign k b = Inr b'"
  shows "\<exists>r r'. ourRole b k = Inr r \<and> ourRole b' k = Inr r'
           \<and> payload (signed (role r')) = payload (signed (role r))"
proof -
  from assms obtain r where r: "ourRole b k = Inr r"
    by (auto simp: mark_and_sign_def split: sum.splits)
  from assms r obtain key where key: "map_of (keys b) (OurRole_name (needsSigning_setter True r)) = Some key"
    by (auto simp: mark_and_sign_def KeyManager_sign_def split: option.splits)
  from assms r key have "b' = set_ourRole k (snd (OurRole_sign key (needsSigning_setter True r))) b"
    by (auto simp: mark_and_sign_def KeyManager_sign_def split: prod.splits)
  then have "ourRole b' k = Inr (snd (OurRole_sign key (needsSigning_setter True r)))"
    by (simp add: ourRole_set_ourRole)
  moreover have "payload (signed (role (snd (OurRole_sign key (needsSigning_setter True r)))))
                 = payload (signed (role r))"
    by (simp add: OurRole_sign_payload) (simp add: needsSigning_setter_def)
  ultimately show ?thesis using r by auto
qed

lemma meta_payload_cong:
  "payload s' = payload s \<Longrightarrow> meta s' = meta s"
  by simp

lemma keys_fold_update:
  "fst ` set (fold (\<lambda>(k, v). AList.update k v) es m) = fst ` set m \<union> fst ` set es"
proof (induction es arbitrary: m)
  case Nil
  then show ?case by simp
next
  case (Cons e es)
  obtain k v where e: "e = (k, v)" by (cases e)
  have "fst ` set (fold (\<lambda>(k, v). AList.update k v) (e # es) m)
        = fst ` set (AList.update k v m) \<union> fst ` set es"
    using Cons.IH [of "AList.update k v m"] by (simp add: e)
  also have "fst ` set (AList.update k v m) = {k} \<union> fst ` set m"
    by (rule dom_update)
  finally show ?case by (simp add: e)
qed

lemma map_of_fold_update_notin:
  "k \<notin> fst ` set es \<Longrightarrow> map_of (fold (\<lambda>(k, v). AList.update k v) es m) k = map_of m k"
  by (induction es arbitrary: m) (auto simp: update_conv')

lemma map_of_fold_update_distinct:
  "distinct (map fst es) \<Longrightarrow> (k, v) \<in> set es
     \<Longrightarrow> map_of (fold (\<lambda>(k, v). AList.update k v) es m) k = Some v"
proof (induction es arbitrary: m)
  case Nil
  then show ?case by simp
next
  case (Cons e es)
  obtain k0 v0 where e: "e = (k0, v0)" by (cases e)
  show ?case
  proof (cases "(k, v) = e")
    case True
    with Cons.prems(1) e have "k \<notin> fst ` set es" by auto
    with True e show ?thesis by (simp add: map_of_fold_update_notin update_conv')
  next
    case False
    with Cons.prems have "(k, v) \<in> set es" "distinct (map fst es)" by auto
    with Cons.IH show ?thesis by (simp add: e)
  qed
qed

text \<open>
  C9, as the code has it. When \<open>bindMetadata\<close> succeeds on a builder whose snapshot record
  has a metadata-file mapping \<open>m0\<close>, the mapping afterwards is \<open>m0\<close> updated, in the order of
  the builder's records, with one entry for every record whose payload is neither a snapshot
  nor a timestamp: its on-disk file name under the current consistency mode, mapped to its
  version. Its file names are those of \<open>m0\<close> together with those of these records; an entry
  of \<open>m0\<close> under any other file name is kept as it was; and when the records' file names
  differ from each other, each is mapped to the version of its record.
\<close>

theorem bindMetadata_entries:
  assumes "bindMetadata b = Inr b'"
      and "snapshot_meta_files b = Inr m0"
      and "isConsistent (seed b) = Inr c"
  shows "\<exists>m'. snapshot_meta_files b' = Inr m'
           \<and> m' = fold (\<lambda>(k, v). AList.update k v) (snapshot_entries c (map snd (ourRoles b))) m0
           \<and> fst ` set m' = fst ` set m0 \<union> fst ` set (snapshot_entries c (map snd (ourRoles b)))
           \<and> (\<forall>fn. fn \<notin> fst ` set (snapshot_entries c (map snd (ourRoles b)))
                  \<longrightarrow> map_of m' fn = map_of m0 fn)
           \<and> (distinct (map fst (snapshot_entries c (map snd (ourRoles b)))) \<longrightarrow>
                (\<forall>(fn, mf) \<in> set (snapshot_entries c (map snd (ourRoles b))). map_of m' fn = Some mf))"
proof -
  let ?es = "snapshot_entries c (map snd (ourRoles b))"
  let ?m' = "fold (\<lambda>(k, v). AList.update k v) ?es m0"
  from assms(2) obtain sn where sn: "ourRole b ''snapshot'' = Inr sn" "meta (signed (role sn)) = Inr m0"
    by (auto simp: snapshot_meta_files_def split: sum.splits)
  from bindMetadata_loop_result [OF sn assms(3), of "map snd (ourRoles b)"]
  obtain b1 sn1 where b1: "bindMetadata_loop (map snd (ourRoles b)) b = Inr b1"
      "ourRole b1 ''snapshot'' = Inr sn1" "meta (signed (role sn1)) = Inr ?m'"
    by blast
  from assms(1) b1(1) have "mark_and_sign ''snapshot'' b1 = Inr b'"
    by (simp add: bindMetadata_def)
  from mark_and_sign_payload [OF this] b1(2)
  obtain sn' where sn': "ourRole b' ''snapshot'' = Inr sn'"
      "payload (signed (role sn')) = payload (signed (role sn1))"
    by auto
  from sn'(2) b1(3) have "meta (signed (role sn')) = Inr ?m'"
    using meta_payload_cong by metis
  with sn'(1) have "snapshot_meta_files b' = Inr ?m'"
    by (simp add: snapshot_meta_files_def)
  then show ?thesis
    by (auto simp: keys_fold_update map_of_fold_update_notin map_of_fold_update_distinct
             simp del: fold_simps)
qed


theorem bindMetadata_entries_witness:
  "snapshot_meta_files
     (projr (bindMetadata
        (projr (bindContent id
           ((projr (RepoBuilder_init
                      (projr (RepoSeed_make (keyManagerFromSingleKey ROLES_MODEL ''k'') False True))
                      (keyManagerFromSingleKey ROLES_MODEL ''k'') None))
            \<lparr>userFiles := [(''a.txt'', ''hello'')]\<rparr>)))))
   = Inr [(''targets.json'', MetaFile 1)]"
proof -
  let ?B = "projr (bindContent id
           ((projr (RepoBuilder_init
                      (projr (RepoSeed_make (keyManagerFromSingleKey ROLES_MODEL ''k'') False True))
                      (keyManagerFromSingleKey ROLES_MODEL ''k'') None))
            \<lparr>userFiles := [(''a.txt'', ''hello'')]\<rparr>))"
  have h1: "bindMetadata ?B = Inr (projr (bindMetadata ?B))" by code_simp
  have h2: "snapshot_meta_files ?B = Inr []" by code_simp
  have h3: "isConsistent (seed ?B) = Inr False" by code_simp
  have es: "fold (\<lambda>(k, v). AList.update k v) (snapshot_entries False (map snd (ourRoles ?B))) []
            = [(''targets.json'', MetaFile 1)]"
    by code_simp
  from bindMetadata_entries [OF h1 h2 h3]
  have "snapshot_meta_files (projr (bindMetadata ?B))
        = Inr (fold (\<lambda>(k, v). AList.update k v) (snapshot_entries False (map snd (ourRoles ?B))) [])"
    by blast
  then show ?thesis by (simp only: es)
qed

text \<open>
  C9 as stated, with no other entries, fails for a builder reconciled from a directory whose
  snapshot already lists another file: \<open>bindMetadata\<close> keeps that entry.
\<close>

theorem bindMetadata_keeps_other_entries:
  "\<not> isl (RepoBuilder_init
             (projr (RepoSeed_make (keyManagerFromSingleKey ROLES_MODEL ''k'') False True))
             (keyManagerFromSingleKey ROLES_MODEL ''k'')
             (Some [(''timestamp.json'',
                     Encoded \<lparr>signed = \<lparr>version = 1, payload = TimestampP (MetaFile 1)\<rparr>,
                              signatures = []\<rparr>),
                    (''snapshot.json'',
                     Encoded \<lparr>signed = \<lparr>version = 1,
                                       payload = SnapshotP [(''delegated.json'', MetaFile 1),
                                                            (''targets.json'', MetaFile 1)]\<rparr>,
                              signatures = []\<rparr>),
                    (''targets.json'',
                     Encoded \<lparr>signed = \<lparr>version = 1, payload = TargetsP []\<rparr>,
                              signatures = []\<rparr>)]))
   \<and> map_sum id snapshot_meta_files
        (bindMetadata
           (projr (RepoBuilder_init
             (projr (RepoSeed_make (keyManagerFromSingleKey ROLES_MODEL ''k'') False True))
             (keyManagerFromSingleKey ROLES_MODEL ''k'')
             (Some [(''timestamp.json'',
                     Encoded \<lparr>signed = \<lparr>version = 1, payload = TimestampP (MetaFile 1)\<rparr>,
                              signatures = []\<rparr>),
                    (''snapshot.json'',
                     Encoded \<lparr>signed = \<lparr>version = 1,
                                       payload = SnapshotP [(''delegated.json'', MetaFile 1),
                                                            (''targets.json'', MetaFile 1)]\<rparr>,
                              signatures = []\<rparr>),
                    (''targets.json'',
                     Encoded \<lparr>signed = \<lparr>version = 1, payload = TargetsP []\<rparr>,
                              signatures = []\<rparr>)]))))
      = Inr (Inr [(''delegated.json'', MetaFile 1), (''targets.json'', MetaFile 1)])"
  by code_simp

subsection \<open>Publishing, saving and reconciling again\<close>

lemma RepoBuilder_init_fresh_simple:
  assumes "isConsistent sd = Inr False"
  shows "RepoBuilder_init sd ks None =
     Inr \<lparr>seed = sd, keys = ks,
          ourRoles =
            [(''timestamp'',
              \<lparr>fac = timestampRoleFac,
               role = \<lparr>signed = \<lparr>version = 0, payload = TimestampP (MetaFile 1)\<rparr>, signatures = []\<rparr>,
               needsSigning = True, needsSaving = True\<rparr>),
             (''snapshot'',
              \<lparr>fac = snapshotRoleFac,
               role = \<lparr>signed = \<lparr>version = 0, payload = SnapshotP []\<rparr>, signatures = []\<rparr>,
               needsSigning = True, needsSaving = True\<rparr>),
             (''targets'',
              \<lparr>fac = targetsRoleFac,
               role = \<lparr>signed = \<lparr>version = 0, payload = TargetsP []\<rparr>, signatures = []\<rparr>,
               needsSigning = True, needsSaving = True\<rparr>)],
          userFiles = []\<rparr>"
  by (simp add: RepoBuilder_init_def load_def assms loadOrCreateRoles_fresh_simple)

lemma makeSnapshot_fresh_simple:
  assumes "isConsistent sd = Inr False"
      and "map_of ks ''targets'' = Some k1"
      and "map_of ks ''snapshot'' = Some k2"
      and "map_of ks ''timestamp'' = Some k3"
  shows "makeSnapshot sha256
     \<lparr>seed = sd, keys = ks,
      ourRoles =
        [(''timestamp'',
          \<lparr>fac = timestampRoleFac,
           role = \<lparr>signed = \<lparr>version = 0, payload = TimestampP (MetaFile 1)\<rparr>, signatures = []\<rparr>,
           needsSigning = True, needsSaving = True\<rparr>),
         (''snapshot'',
          \<lparr>fac = snapshotRoleFac,
           role = \<lparr>signed = \<lparr>version = 0, payload = SnapshotP []\<rparr>, signatures = []\<rparr>,
           needsSigning = True, needsSaving = True\<rparr>),
         (''targets'',
          \<lparr>fac = targetsRoleFac,
           role = \<lparr>signed = \<lparr>version = 0, payload = TargetsP []\<rparr>, signatures = []\<rparr>,
           needsSigning = True, needsSaving = True\<rparr>)],
      userFiles = [(''a.txt'', ''hello'')]\<rparr>
   = Inr \<lparr>seed = sd, keys = ks,
      ourRoles =
        [(''timestamp'',
          \<lparr>fac = timestampRoleFac,
           role = \<lparr>signed = \<lparr>version = 1, payload = TimestampP (MetaFile 1)\<rparr>,
                   signatures = [(k3, \<lparr>version = 1, payload = TimestampP (MetaFile 1)\<rparr>)]\<rparr>,
           needsSigning = False, needsSaving = True\<rparr>),
         (''snapshot'',
          \<lparr>fac = snapshotRoleFac,
           role = \<lparr>signed = \<lparr>version = 1, payload = SnapshotP [(''targets.json'', MetaFile 1)]\<rparr>,
                   signatures = [(k2, \<lparr>version = 1, payload = SnapshotP [(''targets.json'', MetaFile 1)]\<rparr>)]\<rparr>,
           needsSigning = False, needsSaving = True\<rparr>),
         (''targets'',
          \<lparr>fac = targetsRoleFac,
           role = \<lparr>signed = \<lparr>version = 1,
                            payload = TargetsP [(''a.txt'', from_data sha256 ''a.txt'' ''hello'')]\<rparr>,
                   signatures = [(k1, \<lparr>version = 1,
                                       payload = TargetsP [(''a.txt'', from_data sha256 ''a.txt'' ''hello'')]\<rparr>)]\<rparr>,
           needsSigning = False, needsSaving = True\<rparr>)],
      userFiles = [(''a.txt'', ''hello'')]\<rparr>"
  using assms
  by (simp add: makeSnapshot_def bindContent_def bindMetadata_def stamp_def mark_and_sign_def
        ourRole_def set_ourRole_def set_payload_def KeyManager_sign_def OurRole_name_def
        EXCLUDED_FROM_SNAPSHOT_def fileNameForRole_def getFileName_def getSimpleFileName_def
        isRoleConsistent_def fileExtension_def fac_simps role_defs Let_def)


lemma RepoBuilder_save_simple:
  assumes "isConsistent sd = Inr False"
  shows "RepoBuilder_save d0
     \<lparr>seed = sd, keys = ks,
      ourRoles =
        [(''timestamp'',
          \<lparr>fac = timestampRoleFac,
           role = \<lparr>signed = \<lparr>version = 1, payload = TimestampP (MetaFile 1)\<rparr>,
                   signatures = [(k3, \<lparr>version = 1, payload = TimestampP (MetaFile 1)\<rparr>)]\<rparr>,
           needsSigning = False, needsSaving = True\<rparr>),
         (''snapshot'',
          \<lparr>fac = snapshotRoleFac,
           role = \<lparr>signed = \<lparr>version = 1, payload = SnapshotP [(''targets.json'', MetaFile 1)]\<rparr>,
                   signatures = [(k2, \<lparr>version = 1, payload = SnapshotP [(''targets.json'', MetaFile 1)]\<rparr>)]\<rparr>,
           needsSigning = False, needsSaving = True\<rparr>),
         (''targets'',
          \<lparr>fac = targetsRoleFac,
           role = \<lparr>signed = \<lparr>version = 1,
                            payload = TargetsP [(''a.txt'', from_data sha256 ''a.txt'' ''hello'')]\<rparr>,
                   signatures = [(k1, \<lparr>version = 1,
                                       payload = TargetsP [(''a.txt'', from_data sha256 ''a.txt'' ''hello'')]\<rparr>)]\<rparr>,
           needsSigning = False, needsSaving = True\<rparr>)],
      userFiles = [(''a.txt'', ''hello'')]\<rparr>
   = (Inr (),
      AList.update ''a.txt'' (Bytes ''hello'')
        (AList.update ''targets.json'' (Encoded \<lparr>signed = \<lparr>version = 1,
                            payload = TargetsP [(''a.txt'', from_data sha256 ''a.txt'' ''hello'')]\<rparr>,
                   signatures = [(k1, \<lparr>version = 1,
                                       payload = TargetsP [(''a.txt'', from_data sha256 ''a.txt'' ''hello'')]\<rparr>)]\<rparr>)
           (AList.update ''snapshot.json'' (Encoded \<lparr>signed = \<lparr>version = 1, payload = SnapshotP [(''targets.json'', MetaFile 1)]\<rparr>,
                   signatures = [(k2, \<lparr>version = 1, payload = SnapshotP [(''targets.json'', MetaFile 1)]\<rparr>)]\<rparr>)
              (AList.update ''timestamp.json'' (Encoded \<lparr>signed = \<lparr>version = 1, payload = TimestampP (MetaFile 1)\<rparr>,
                   signatures = [(k3, \<lparr>version = 1, payload = TimestampP (MetaFile 1)\<rparr>)]\<rparr>) d0))),
      \<lparr>seed = sd, keys = ks,
       ourRoles =
        [(''timestamp'',
          \<lparr>fac = timestampRoleFac,
           role = \<lparr>signed = \<lparr>version = 1, payload = TimestampP (MetaFile 1)\<rparr>,
                   signatures = [(k3, \<lparr>version = 1, payload = TimestampP (MetaFile 1)\<rparr>)]\<rparr>,
           needsSigning = False, needsSaving = False\<rparr>),
         (''snapshot'',
          \<lparr>fac = snapshotRoleFac,
           role = \<lparr>signed = \<lparr>version = 1, payload = SnapshotP [(''targets.json'', MetaFile 1)]\<rparr>,
                   signatures = [(k2, \<lparr>version = 1, payload = SnapshotP [(''targets.json'', MetaFile 1)]\<rparr>)]\<rparr>,
           needsSigning = False, needsSaving = False\<rparr>),
         (''targets'',
          \<lparr>fac = targetsRoleFac,
           role = \<lparr>signed = \<lparr>version = 1,
                            payload = TargetsP [(''a.txt'', from_data sha256 ''a.txt'' ''hello'')]\<rparr>,
                   signatures = [(k1, \<lparr>version = 1,
                                       payload = TargetsP [(''a.txt'', from_data sha256 ''a.txt'' ''hello'')]\<rparr>)]\<rparr>,
           needsSigning = False, needsSaving = False\<rparr>)],
       userFiles = [(''a.txt'', ''hello'')]\<rparr>)"
  using assms
  by (simp add: RepoBuilder_save_def saveMeta_def saveFiles_def getPrefixForUserFile_def
        Strategy_save_def save_def save_raw_def needsSaving_setter_def getFileName_def
        getSimpleFileName_def isRoleConsistent_def fileExtension_def fac_simps
        OurRole_version_def OurRole__version_def)

lemma RepoBuilder_init_saved_simple:
  assumes "isConsistent sd = Inr False"
      and "map_of d ''timestamp.json'' = Some (Encoded tsm)"
      and "map_of d ''snapshot.json'' = Some (Encoded snm)"
      and "map_of d ''targets.json'' = Some (Encoded tgm)"
      and "payload (signed tsm) = TimestampP (MetaFile (version (signed snm)))"
      and "payload (signed snm) = SnapshotP [(''targets.json'', MetaFile (version (signed tgm)))]"
  shows "RepoBuilder_init sd ks (Some d) =
     Inr \<lparr>seed = sd, keys = ks,
          ourRoles = [(''timestamp'', fromDict timestampRoleFac tsm),
                      (''snapshot'', fromDict snapshotRoleFac snm),
                      (''targets'', fromDict targetsRoleFac tgm)],
          userFiles = []\<rparr>"
proof -
  have ts: "Strategy_loadOrCreate fileExtension timestampRoleFac (Some d) False None
            = Inr (fromDict timestampRoleFac tsm, True)"
    using assms(2)
    by (simp add: Strategy_loadOrCreate_def loadOrCreate_def loadFromRepo_def
          discoverBlindFromRepo_def discoverSimple_def loadFromFile_def loadFromData_def
          deserializeData_def getSimpleFileName_def isRoleConsistent_def fileExtension_def fac_simps)
  have sn: "Strategy_loadOrCreate fileExtension snapshotRoleFac (Some d) False (Some (version (signed snm)))
            = Inr (fromDict snapshotRoleFac snm, True)"
    using assms(3)
    by (simp add: Strategy_loadOrCreate_def loadOrCreate_def loadFromRepo_def
          loadFromFile_def loadFromData_def deserializeData_def getFileName_def
          getSimpleFileName_def isRoleConsistent_def fileExtension_def fac_simps
          fromDict_def OurRole_init_def OurRole_version_def OurRole__version_def)
  have head: "loadTimestampAndSnapshot ROLES_MODEL fileExtension (Some d)
              = Inr ([(''timestamp'', fromDict timestampRoleFac tsm),
                      (''snapshot'', fromDict snapshotRoleFac snm)],
                     [(''targets.json'', MetaFile (version (signed tgm)))])"
    using assms(5,6)
    by (simp add: loadTimestampAndSnapshot_def map_of_ROLES_MODEL ts)
       (simp add: fromDict_def OurRole_init_def sn [unfolded fromDict_def OurRole_init_def])
  have tg: "loadRole fileExtension (Some d) False
              [(''targets.json'', MetaFile (version (signed tgm)))] targetsRoleFac
            = Inr (fromDict targetsRoleFac tgm)"
    using assms(4)
    by (simp add: loadRole_def discoverVersionsFromFileNames_def
          discoverSipleVersionsFromFileNames_def getSimpleFileName_def isRoleConsistent_def
          fileExtension_def fac_simps loadFromFile_def loadFromData_def deserializeData_def
          fromDict_def OurRole_init_def OurRole_version_def OurRole__version_def)
  have "loadOrCreateRoles ROLES_MODEL fileExtension (Some d) False
        = Inr [(''timestamp'', fromDict timestampRoleFac tsm),
               (''snapshot'', fromDict snapshotRoleFac snm),
               (''targets'', fromDict targetsRoleFac tgm)]"
    unfolding loadOrCreateRoles_def head
    by (simp add: rolesToLoad_of_ROLES_MODEL map_of_ROLES_MODEL tg fac_simps)
  then show ?thesis
    by (simp add: RepoBuilder_init_def load_def assms(1))
qed

text \<open>
  The round trip in simple mode. With a key for each of targets, snapshot and timestamp and
  any hash function for SHA-256: build a repository from scratch, give it the user file
  \<open>a.txt\<close> with content \<open>hello\<close>, run the publish cascade, save into any directory and
  reconcile afresh from the saved directory. Every step succeeds; the reconciled targets
  payload has an entry for \<open>a.txt\<close> whose \<open>sha256\<close> hash is the hash of \<open>hello\<close>; and the
  reconciled snapshot and timestamp records have the versions of the records that were
  written to \<open>snapshot.json\<close> and \<open>timestamp.json\<close> at save time.
\<close>

lemma roundtrip_simple_mode:
  assumes "isConsistent sd = Inr False"
      and "map_of ks ''targets'' = Some k1"
      and "map_of ks ''snapshot'' = Some k2"
      and "map_of ks ''timestamp'' = Some k3"
  shows "\<exists>b0 b1 d b2 b3 tg ts t sn1 sn3 ts1 ts3.
           RepoBuilder_init sd ks None = Inr b0
         \<and> makeSnapshot sha256 (b0\<lparr>userFiles := [(''a.txt'', ''hello'')]\<rparr>) = Inr b1
         \<and> RepoBuilder_save d0 b1 = (Inr (), d, b2)
         \<and> RepoBuilder_init sd ks (Some d) = Inr b3
         \<and> ourRole b3 ''targets'' = Inr tg
         \<and> targets_of (signed (role tg)) = Inr ts
         \<and> map_of ts ''a.txt'' = Some t
         \<and> map_of (tf_hashes t) ''sha256'' = Some (sha256 ''hello'')
         \<and> ourRole b1 ''snapshot'' = Inr sn1
         \<and> map_of d ''snapshot.json'' = Some (Encoded (role sn1))
         \<and> ourRole b3 ''snapshot'' = Inr sn3
         \<and> OurRole_version sn3 = OurRole_version sn1
         \<and> ourRole b1 ''timestamp'' = Inr ts1
         \<and> map_of d ''timestamp.json'' = Some (Encoded (role ts1))
         \<and> ourRole b3 ''timestamp'' = Inr ts3
         \<and> OurRole_version ts3 = OurRole_version ts1"
proof -
  let ?tsm = "\<lparr>signed = \<lparr>version = 1, payload = TimestampP (MetaFile 1)\<rparr>,
               signatures = [(k3, \<lparr>version = 1, payload = TimestampP (MetaFile 1)\<rparr>)]\<rparr>"
  let ?snm = "\<lparr>signed = \<lparr>version = 1, payload = SnapshotP [(''targets.json'', MetaFile 1)]\<rparr>,
               signatures = [(k2, \<lparr>version = 1, payload = SnapshotP [(''targets.json'', MetaFile 1)]\<rparr>)]\<rparr>"
  let ?tgm = "\<lparr>signed = \<lparr>version = 1,
                          payload = TargetsP [(''a.txt'', from_data sha256 ''a.txt'' ''hello'')]\<rparr>,
               signatures = [(k1, \<lparr>version = 1,
                                   payload = TargetsP [(''a.txt'', from_data sha256 ''a.txt'' ''hello'')]\<rparr>)]\<rparr>"
  let ?d = "AList.update ''a.txt'' (Bytes ''hello'')
              (AList.update ''targets.json'' (Encoded ?tgm)
                 (AList.update ''snapshot.json'' (Encoded ?snm)
                    (AList.update ''timestamp.json'' (Encoded ?tsm) d0)))"
  note init = RepoBuilder_init_fresh_simple [OF assms(1), of ks]
  note cascade = makeSnapshot_fresh_simple [OF assms, of sha256]
  note saved = RepoBuilder_save_simple [OF assms(1), of d0 ks k3 k2 sha256 k1]
  have l1: "map_of ?d ''timestamp.json'' = Some (Encoded ?tsm)" by (simp add: update_conv')
  have l2: "map_of ?d ''snapshot.json'' = Some (Encoded ?snm)" by (simp add: update_conv')
  have l3: "map_of ?d ''targets.json'' = Some (Encoded ?tgm)" by (simp add: update_conv')
  have p1: "payload (signed ?tsm) = TimestampP (MetaFile (version (signed ?snm)))" by simp
  have p2: "payload (signed ?snm) = SnapshotP [(''targets.json'', MetaFile (version (signed ?tgm)))]"
    by simp
  note reloaded = RepoBuilder_init_saved_simple [OF assms(1) l1 l2 l3 p1 p2, of ks]
  show ?thesis
    unfolding init
    by (simp add: cascade saved reloaded l1 l2 ourRole_def fromDict_def OurRole_init_def
          OurRole_version_def OurRole__version_def)
       (simp add: from_data_def)
qed

lemma roundtrip_simple_mode_example:
  "(\<exists>b0 b1 d b2 b3 tg ts t sn1 sn3 ts1 ts3.
           RepoBuilder_init (projr (RepoSeed_make (keyManagerFromSingleKey ROLES_MODEL ''k'') False True)) (keyManagerFromSingleKey ROLES_MODEL ''k'') None = Inr b0
         \<and> makeSnapshot rev (b0\<lparr>userFiles := [(''a.txt'', ''hello'')]\<rparr>) = Inr b1
         \<and> RepoBuilder_save [] b1 = (Inr (), d, b2)
         \<and> RepoBuilder_init (projr (RepoSeed_make (keyManagerFromSingleKey ROLES_MODEL ''k'') False True)) (keyManagerFromSingleKey ROLES_MODEL ''k'') (Some d) = Inr b3
         \<and> ourRole b3 ''targets'' = Inr tg
         \<and> targets_of (signed (role tg)) = Inr ts
         \<and> map_of ts ''a.txt'' = Some t
         \<and> map_of (tf_hashes t) ''sha256'' = Some (rev ''hello'')
         \<and> ourRole b1 ''snapshot'' = Inr sn1
         \<and> map_of d ''snapshot.json'' = Some (Encoded (role sn1))
         \<and> ourRole b3 ''snapshot'' = Inr sn3
         \<and> OurRole_version sn3 = OurRole_version sn1
         \<and> ourRole b1 ''timestamp'' = Inr ts1
         \<and> map_of d ''timestamp.json'' = Some (Encoded (role ts1))
         \<and> ourRole b3 ''timestamp'' = Inr ts3
         \<and> OurRole_version ts3 = OurRole_version ts1)
   \<and> map_sum id (\<lambda>b. map (\<lambda>(k, r). (k, OurRole_version r, payload (signed (role r)))) (ourRoles b))
        (RepoBuilder_init (projr (RepoSeed_make (keyManagerFromSingleKey ROLES_MODEL ''k'') False True)) (keyManagerFromSingleKey ROLES_MODEL ''k'')
           (Some (fst (snd (RepoBuilder_save []
              (projr (makeSnapshot rev
                 ((projr (RepoBuilder_init (projr (RepoSeed_make (keyManagerFromSingleKey ROLES_MODEL ''k'') False True)) (keyManagerFromSingleKey ROLES_MODEL ''k'') None))
                    \<lparr>userFiles := [(''a.txt'', ''hello'')]\<rparr>))))))))
      = Inr [(''timestamp'', 1, TimestampP (MetaFile 1)),
             (''snapshot'', 1, SnapshotP [(''targets.json'', MetaFile 1)]),
             (''targets'', 1,
              TargetsP [(''a.txt'', \<lparr>tf_length = 5, tf_hashes = [(''sha256'', ''olleh'')],
                                     tf_path = ''a.txt''\<rparr>)])]"
proof -
  have h1: "isConsistent (projr (RepoSeed_make (keyManagerFromSingleKey ROLES_MODEL ''k'') False True)) = Inr False" by code_simp
  have h2: "map_of (keyManagerFromSingleKey ROLES_MODEL ''k'') ''targets'' = Some ''k''" by code_simp
  have h3: "map_of (keyManagerFromSingleKey ROLES_MODEL ''k'') ''snapshot'' = Some ''k''" by code_simp
  have h4: "map_of (keyManagerFromSingleKey ROLES_MODEL ''k'') ''timestamp'' = Some ''k''" by code_simp
  have run: "map_sum id (\<lambda>b. map (\<lambda>(k, r). (k, OurRole_version r, payload (signed (role r)))) (ourRoles b))
        (RepoBuilder_init (projr (RepoSeed_make (keyManagerFromSingleKey ROLES_MODEL ''k'') False True)) (keyManagerFromSingleKey ROLES_MODEL ''k'')
           (Some (fst (snd (RepoBuilder_save []
              (projr (makeSnapshot rev
                 ((projr (RepoBuilder_init (projr (RepoSeed_make (keyManagerFromSingleKey ROLES_MODEL ''k'') False True)) (keyManagerFromSingleKey ROLES_MODEL ''k'') None))
                    \<lparr>userFiles := [(''a.txt'', ''hello'')]\<rparr>))))))))
      = Inr [(''timestamp'', 1, TimestampP (MetaFile 1)),
             (''snapshot'', 1, SnapshotP [(''targets.json'', MetaFile 1)]),
             (''targets'', 1,
              TargetsP [(''a.txt'', \<lparr>tf_length = 5, tf_hashes = [(''sha256'', ''olleh'')],
                                     tf_path = ''a.txt''\<rparr>)])]"
    by code_simp
  from roundtrip_simple_mode [OF h1 h2 h3 h4, of rev "[]"] run
  show ?thesis by (rule conjI)
qed

text \<open>
  C3, where the code departs from it. The round trip holds in simple mode
  (\<open>roundtrip_simple_mode\<close>) and fails when the seed is in consistent mode. Built from
  scratch, the builder cannot even be constructed: discovery of the targets role raises
  \<open>FileNotFoundError\<close>, which \<open>loadOrCreateRoles\<close> does not catch. Built from an existing
  consistent-mode directory (timestamp and snapshot at version 1, the snapshot listing
  \<open>1.targets.json\<close>), the cascade and the save succeed, and the save writes the new snapshot
  as \<open>2.snapshot.json\<close>; but \<open>loadOrCreateRoles\<close> always reads the snapshot under its simple
  name, finds the old \<open>snapshot.json\<close> at version 1 where the timestamp refers to version 2,
  and reconciling the saved directory raises the within-file version error.
\<close>

theorem roundtrip_consistent_mode_fails:
  "(let ks = keyManagerFromSingleKey ROLES_MODEL ''k'';
        sd = projr (RepoSeed_make ks True True);
        d0 = [(''timestamp.json'',
               Encoded \<lparr>signed = \<lparr>version = 1, payload = TimestampP (MetaFile 1)\<rparr>,
                        signatures = []\<rparr>),
              (''snapshot.json'',
               Encoded \<lparr>signed = \<lparr>version = 1,
                                 payload = SnapshotP [(''1.targets.json'', MetaFile 1)]\<rparr>,
                        signatures = []\<rparr>),
              (''1.targets.json'',
               Encoded \<lparr>signed = \<lparr>version = 1, payload = TargetsP []\<rparr>, signatures = []\<rparr>)];
        b0 = projr (RepoBuilder_init sd ks (Some d0));
        b1 = projr (makeSnapshot rev (b0\<lparr>userFiles := [(''a.txt'', ''hello'')]\<rparr>));
        saved = RepoBuilder_save d0 b1
    in isConsistent sd = Inr True
     \<and> RepoBuilder_init sd ks None
         = Inl (FileNotFoundError
                  (replace_dot (getConsistentFileName fileExtension ''targets'' (S group_digits))))
     \<and> \<not> isl (RepoBuilder_init sd ks (Some d0))
     \<and> \<not> isl (makeSnapshot rev (b0\<lparr>userFiles := [(''a.txt'', ''hello'')]\<rparr>))
     \<and> fst saved = Inr ()
     \<and> map fst (fst (snd saved))
         = [''timestamp.json'', ''snapshot.json'', ''1.targets.json'', ''2.snapshot.json'',
            ''2.targets.json'', ''olleh.a.txt'']
     \<and> RepoBuilder_init sd ks (Some (fst (snd saved)))
         = Inl (RuntimeError_VersionWithinFile ''snapshot'' 2 1))"
  by code_simp

end
